theory Spec2Isabelle
  imports Complex_Main "HOL-Library.Sublist"
begin

section \<open>Strings and arrays of the host language\<close>

text \<open>
  A JavaScript string is modelled as a \<^typ>\<open>string\<close>, one \<^typ>\<open>char\<close> per code unit, so
  that \<open>length\<close> is the \<open>.length\<close> of the source. A JavaScript \<open>number\<close> is modelled as a
  \<^typ>\<open>rat\<close>: exact arithmetic, without the rounding, the infinities and the NaN of doubles.
\<close>

definition startsWith :: "string \<Rightarrow> string \<Rightarrow> bool" where
  "startsWith s p = (take (length p) s = p)"

definition endsWith :: "string \<Rightarrow> string \<Rightarrow> bool" where
  "endsWith s p = (length p \<le> length s \<and> drop (length s - length p) s = p)"

primrec indexOf_scan :: "char \<Rightarrow> string \<Rightarrow> nat \<Rightarrow> int" where
  "indexOf_scan c [] i = - 1"
| "indexOf_scan c (x # xs) i = (if x = c then int i else indexOf_scan c xs (Suc i))"

definition indexOf :: "string \<Rightarrow> char \<Rightarrow> nat \<Rightarrow> int" where
  \<comment> \<open>\<open>s.indexOf(c, from)\<close>: the first position at or after \<open>from\<close>, or \<open>-1\<close>.\<close>
  "indexOf s c from = indexOf_scan c (drop from s) (min from (length s))"

definition substring :: "string \<Rightarrow> nat \<Rightarrow> nat \<Rightarrow> string" where
  \<comment> \<open>\<open>s.substring(a, b)\<close>: both ends are clamped to the length and swapped when \<open>a > b\<close>.\<close>
  "substring s a b =
     (let a' = min a (length s); b' = min b (length s);
          lo = min a' b'; hi = max a' b'
      in take (hi - lo) (drop lo s))"

definition js_index :: "'a list \<Rightarrow> nat \<Rightarrow> 'a option" where
  \<comment> \<open>\<open>xs[i]\<close>: \<open>undefined\<close> (here \<open>None\<close>) when out of range.\<close>
  "js_index xs i = (if i < length xs then Some (xs ! i) else None)"

definition every_indexed :: "('a \<Rightarrow> nat \<Rightarrow> bool) \<Rightarrow> 'a list \<Rightarrow> bool" where
  \<comment> \<open>\<open>xs.every((x, index) => p(x, index))\<close>\<close>
  "every_indexed p xs = list_all (\<lambda>(x, i). p x i) (zip xs [0..<length xs])"

section \<open>Data model\<close>

record gif =
  format :: rat
  src :: string
  width :: rat
  height :: rat
  order :: rat
  url :: string

text \<open>
  The private settings of the later revision: both records may be absent (\<open>undefined\<close>).
  A \<open>Record<string, number>\<close> is kept as the list of its entries, in the order of
  \<open>Object.entries\<close>; a lookup is \<^const>\<open>map_of\<close>.
\<close>

record settings_store =
  api_url :: string
  accountKeys :: "(string \<times> string) list option"
  modelWeights :: "(string \<times> rat) list option"

definition getModelWeights :: "settings_store \<Rightarrow> (string \<times> rat) list" where
  "getModelWeights store = (case modelWeights store of None \<Rightarrow> [] | Some w \<Rightarrow> w)"

text \<open>The module-level tracking variables of the indexing pipeline.\<close>

record sync_state =
  lastUserId :: "string option"
  lastIndexedFavorites :: "string list"
  indexedModels :: "string set"
  pendingIndexRequest :: bool
  lastRankingWeights :: "(string \<times> rat) list"

definition initial_sync_state :: sync_state where
  "initial_sync_state =
     \<lparr>lastUserId = None, lastIndexedFavorites = [], indexedModels = {},
      pendingIndexRequest = False, lastRankingWeights = []\<rparr>"

section \<open>Validator\<close>

definition domainOffset_of :: "string \<Rightarrow> nat option" where
  "domainOffset_of s =
     (if startsWith s ''http://'' then Some 7
      else if startsWith s ''https://'' then Some 8
      else None)"

definition domain_of :: "string \<Rightarrow> nat \<Rightarrow> string" where
  "domain_of s domainOffset =
     (let pathIdx = indexOf s CHR ''/'' domainOffset;
          endIdx = (if pathIdx = - 1 then length s else nat pathIdx)
      in substring s domainOffset endIdx)"

definition domain_invalid :: "string \<Rightarrow> bool" where
  "domain_invalid domain =
     (domain = [] \<or> length domain > 256 \<or>
      (\<not> endsWith domain ''.discordapp.net'' \<and> domain \<noteq> ''media.tenor.co''))"

text \<open>One iteration of the loop of \<open>getValidGifUrls\<close>; each \<open>continue\<close> returns the
  accumulator as it is.\<close>

definition getValidGifUrls_step :: "gif \<Rightarrow> string list \<Rightarrow> string list" where
  "getValidGifUrls_step g validUrls =
     (let name = url g in
      if length name > 512 then validUrls
      else if length (src g) > 2000 then validUrls
      else (case domainOffset_of (src g) of
              None \<Rightarrow> validUrls
            | Some domainOffset \<Rightarrow>
                if domain_invalid (domain_of (src g) domainOffset) then validUrls
                else validUrls @ [name]))"

definition getValidGifUrls :: "gif list \<Rightarrow> string list" where
  "getValidGifUrls favorites = fold getValidGifUrls_step favorites []"

text \<open>The validation loop inlined in \<open>sendIndexRequest\<close>: the same checks, collecting
  \<open>{name, src}\<close>.\<close>

definition validGifs_step :: "gif \<Rightarrow> (string \<times> string) list \<Rightarrow> (string \<times> string) list" where
  "validGifs_step g validGifs =
     (let name = url g in
      if length name > 512 then validGifs
      else if length (src g) > 2000 then validGifs
      else (case domainOffset_of (src g) of
              None \<Rightarrow> validGifs
            | Some domainOffset \<Rightarrow>
                if domain_invalid (domain_of (src g) domainOffset) then validGifs
                else validGifs @ [(name, src g)]))"

definition collect_validGifs :: "gif list \<Rightarrow> (string \<times> string) list" where
  "collect_validGifs favorites = fold validGifs_step favorites []"

text \<open>The rules of the validator as the specification words them.\<close>

definition locator_domain :: "string \<Rightarrow> string \<Rightarrow> string" where
  \<comment> \<open>the text between the scheme and the first \<open>/\<close>, or the end of the string\<close>
  "locator_domain scheme locator = takeWhile (\<lambda>c. c \<noteq> CHR ''/'') (drop (length scheme) locator)"

definition valid_item :: "gif \<Rightarrow> bool" where
  "valid_item g =
     (length (url g) \<le> 512 \<and> length (src g) \<le> 2000 \<and>
      (\<exists>scheme \<in> {''http://'', ''https://''}.
         prefix scheme (src g) \<and>
         (let d = locator_domain scheme (src g)
          in d \<noteq> [] \<and> length d \<le> 256 \<and>
             (suffix ''.discordapp.net'' d \<or> d = ''media.tenor.co''))))"

section \<open>Change detector\<close>

text \<open>The loop over \<open>Object.entries(modelWeights)\<close> of \<open>shouldIndex\<close>, with its two
  early returns.\<close>

fun shouldIndex_models :: "(string \<times> rat) list \<Rightarrow> (string \<times> rat) list \<Rightarrow> string set \<Rightarrow> bool" where
  "shouldIndex_models [] lastW indexed = False"
| "shouldIndex_models ((model, weight) # rest) lastW indexed =
     (let last = (case map_of lastW model of None \<Rightarrow> 0 | Some v \<Rightarrow> v) in
      if last = 0 \<and> weight > 0 \<and> model \<notin> indexed then True
      else if weight > 0 \<and> model \<notin> indexed then True
      else shouldIndex_models rest lastW indexed)"

definition shouldIndex :: "settings_store \<Rightarrow> string \<Rightarrow> gif list \<Rightarrow> sync_state \<Rightarrow> bool" where
  "shouldIndex store currentUserId favorites st =
     (if lastUserId st \<noteq> Some currentUserId then True
      else
        let currentValidUrls = getValidGifUrls favorites in
        if length currentValidUrls \<noteq> length (lastIndexedFavorites st) \<or>
           \<not> every_indexed (\<lambda>u index. js_index (lastIndexedFavorites st) index = Some u)
                currentValidUrls
        then True
        else shouldIndex_models (getModelWeights store) (lastRankingWeights st) (indexedModels st))"

section \<open>Indexer\<close>

text \<open>
  \<open>sendIndexRequest\<close> is an async function with one suspension point, the \<open>await\<close> of
  \<open>fetch\<close>. It is modelled in two halves: \<open>sendIndexRequest_begin\<close> runs up to the
  \<open>await\<close> and hands back the suspended call (what the rest of the body still needs:
  the request, the user id and the captured weights); \<open>sendIndexRequest_settle\<close> is the
  rest of the body, run when the fetch settles. Console output is not modelled here.

  The url of the request is the template string of the source; it would render an
  absent key as \<open>undefined\<close>, which the guard excludes.

  \<open>s_modelWeights\<close> stands for the entries of the weights object the call holds, as the
  continuation copies them. That object is the one in the settings; every edit of a
  weight in the settings component replaces it by a new object, so the call keeps the
  entries it read.
\<close>

record index_request =
  request_url :: string
  names :: "string list"
  media_srcs :: "string list"
  models :: "string list"

record suspended_index =
  s_request :: index_request
  s_id :: string
  s_modelWeights :: "(string \<times> rat) list"

datatype fetch_result = Fulfilled nat | Rejected

definition response_ok :: "nat \<Rightarrow> bool" where
  \<comment> \<open>\<open>response.ok\<close>: the status is in the range 200 to 299\<close>
  "response_ok status = (200 \<le> status \<and> status \<le> 299)"

definition positive_models :: "(string \<times> rat) list \<Rightarrow> string list" where
  \<comment> \<open>the loop pushing every name of weight \<open>> 0\<close>\<close>
  "positive_models weights =
     fold (\<lambda>(name, weight) acc. if weight > 0 then acc @ [name] else acc) weights []"

definition sendIndexRequest_begin ::
  "settings_store \<Rightarrow> string \<Rightarrow> gif list \<Rightarrow> sync_state \<Rightarrow>
     settings_store \<times> sync_state \<times> suspended_index option" where
  "sendIndexRequest_begin store currentUserId favorites st =
     (let s = (case accountKeys store of None \<Rightarrow> [] | Some k \<Rightarrow> k);
          store' = store\<lparr>accountKeys := Some s\<rparr>;
          id = currentUserId
      in
      if pendingIndexRequest st \<or>
         (case map_of s id of None \<Rightarrow> True | Some key \<Rightarrow> length key \<noteq> 32)
      then (store', st, None)
      else
        let validGifs = collect_validGifs favorites in
        if length validGifs = 0 then (store', st, None)
        else
          let names' = map fst validGifs;
              srcs = map snd validGifs;
              modelWeights' = getModelWeights store';
              models' = positive_models modelWeights'
          in
          if length models' = 0 then (store', st, None)
          else
            (store', st\<lparr>pendingIndexRequest := True\<rparr>,
             Some \<lparr>s_request =
                     \<lparr>request_url =
                        api_url store' @ ''/'' @
                        (case map_of s id of None \<Rightarrow> ''undefined'' | Some key \<Rightarrow> key) @
                        ''/index'',
                      names = names', media_srcs = srcs, models = models'\<rparr>,
                   s_id = id, s_modelWeights = modelWeights'\<rparr>))"

definition sendIndexRequest_settle ::
  "suspended_index \<Rightarrow> fetch_result \<Rightarrow> sync_state \<Rightarrow> sync_state" where
  "sendIndexRequest_settle p r st =
     (let st' =
        (case r of
           Rejected \<Rightarrow> st
         | Fulfilled status \<Rightarrow>
             if \<not> response_ok status then st
             else st\<lparr>lastIndexedFavorites := names (s_request p),
                     lastUserId := Some (s_id p),
                     indexedModels := fold insert (models (s_request p)) (indexedModels st),
                     lastRankingWeights := s_modelWeights p\<rparr>)
      in st'\<lparr>pendingIndexRequest := False\<rparr>)"

text \<open>A whole call whose fetch settles with \<open>r\<close>, nothing else running in between;
  the request is returned when one was issued.\<close>

definition sendIndexRequest ::
  "settings_store \<Rightarrow> string \<Rightarrow> gif list \<Rightarrow> fetch_result \<Rightarrow> sync_state \<Rightarrow>
     settings_store \<times> sync_state \<times> index_request option" where
  "sendIndexRequest store currentUserId favorites r st =
     (case sendIndexRequest_begin store currentUserId favorites st of
        (store', st', None) \<Rightarrow> (store', st', None)
      | (store', st', Some p) \<Rightarrow> (store', sendIndexRequest_settle p r st', Some (s_request p)))"

definition fetch_ok :: "fetch_result \<Rightarrow> bool" where
  "fetch_ok r = (case r of Rejected \<Rightarrow> False | Fulfilled status \<Rightarrow> response_ok status)"

subsection \<open>Interleavings of the indexing pipeline\<close>

text \<open>
  Everything runs on one thread, so a run is a sequence of atomic events: a call of
  \<open>sendIndexRequest\<close> (up to its \<open>await\<close>), the settling of an outstanding fetch, the
  two halves of the plugin's \<open>start\<close> (the synchronous one, and the one that runs when
  the list of models has arrived), and the changes the surroundings make (the settings
  are edited, another account logs in). The world keeps every suspended call and every
  request that went to the network. (The second half of \<open>start\<close> adds the defaults to
  the weights object in place. A call suspended across it would copy the entries with
  the defaults added; the world keeps the entries as the call read them. The two differ
  in \<open>lastRankingWeights\<close> only.)
\<close>

record world =
  w_store :: settings_store
  w_user :: string
  w_sync :: sync_state
  w_in_flight :: "suspended_index list"
  w_network :: "index_request list"

datatype event =
    Call "gif list"
  | Settle nat fetch_result
  | SetStore settings_store
  | SwitchUser string
  | Start
  | ModelsLoaded "(string \<times> rat) list"

definition merge_defaults :: "(string \<times> rat) list \<Rightarrow> (string \<times> rat) list \<Rightarrow> (string \<times> rat) list" where
  \<comment> \<open>the loop of \<open>start\<close> over the models of the server: a name without a weight gets
     the server's default\<close>
  "merge_defaults fetched current =
     fold (\<lambda>(name, weight) cur.
             if map_of cur name = None then cur @ [(name, weight)] else cur)
       fetched current"

definition remove_nth :: "nat \<Rightarrow> 'a list \<Rightarrow> 'a list" where
  "remove_nth i xs = take i xs @ drop (Suc i) xs"

fun step :: "event \<Rightarrow> world \<Rightarrow> world" where
  "step (Call favorites) w =
     (case sendIndexRequest_begin (w_store w) (w_user w) favorites (w_sync w) of
        (store', st', None) \<Rightarrow> w\<lparr>w_store := store', w_sync := st'\<rparr>
      | (store', st', Some p) \<Rightarrow>
          w\<lparr>w_store := store', w_sync := st',
            w_in_flight := w_in_flight w @ [p],
            w_network := w_network w @ [s_request p]\<rparr>)"
| "step (Settle i r) w =
     (if i < length (w_in_flight w)
      then w\<lparr>w_sync := sendIndexRequest_settle (w_in_flight w ! i) r (w_sync w),
             w_in_flight := remove_nth i (w_in_flight w)\<rparr>
      else w)"
| "step (SetStore store') w = w\<lparr>w_store := store'\<rparr>"
| "step (SwitchUser u) w = w\<lparr>w_user := u\<rparr>"
| "step Start w =
     w\<lparr>w_sync := (w_sync w)\<lparr>lastRankingWeights := getModelWeights (w_store w)\<rparr>\<rparr>"
| "step (ModelsLoaded fetched) w =
     (let current = getModelWeights (w_store w);
          current' = merge_defaults fetched current
      in if current' = current then w
         else w\<lparr>w_store := (w_store w)\<lparr>modelWeights := Some current'\<rparr>,
                w_sync := (w_sync w)\<lparr>lastRankingWeights := current'\<rparr>\<rparr>)"

definition run :: "event list \<Rightarrow> world \<Rightarrow> world" where
  "run events w = fold step events w"

definition initial_world :: "settings_store \<Rightarrow> string \<Rightarrow> world" where
  "initial_world store u =
     \<lparr>w_store = store, w_user = u, w_sync = initial_sync_state,
      w_in_flight = [], w_network = []\<rparr>"

definition is_settle :: "event \<Rightarrow> bool" where
  "is_settle e = (case e of Settle i r \<Rightarrow> True | _ \<Rightarrow> False)"

section \<open>The earlier revision of the indexing pipeline\<close>

text \<open>
  The earlier revision (\<open>index.tsx\<close>) has one user key, two fixed models numbered 0 and 1
  with one weight setting each, and no record of the user. Its validator is the one
  above, word for word.
\<close>

record earlier_settings =
  e_api_url :: string
  user_key :: string
  VideoCLIP_XL_v2_ranking :: rat
  X_CLIP_ranking :: rat

record earlier_sync =
  e_lastIndexedFavorites :: "string list"
  e_indexedModels :: "nat set"
  e_pendingIndexRequest :: bool
  e_last_VideoCLIP_XL_v2 :: rat
  e_last_X_CLIP :: rat

record earlier_request =
  e_request_url :: string
  e_names :: "string list"
  e_media_srcs :: "string list"
  e_models :: "nat list"

definition shouldIndex_earlier :: "earlier_settings \<Rightarrow> gif list \<Rightarrow> earlier_sync \<Rightarrow> bool" where
  "shouldIndex_earlier store favorites st =
     (let currentValidUrls = getValidGifUrls favorites in
      if length currentValidUrls \<noteq> length (e_lastIndexedFavorites st) \<or>
         \<not> every_indexed (\<lambda>u index. js_index (e_lastIndexedFavorites st) index = Some u)
              currentValidUrls
      then True
      else
        let currentVideoCLIPWeight = VideoCLIP_XL_v2_ranking store;
            currentXCLIPWeight = X_CLIP_ranking store
        in
        if e_last_VideoCLIP_XL_v2 st = 0 \<and> currentVideoCLIPWeight > 0 \<and> 0 \<notin> e_indexedModels st
        then True
        else if e_last_X_CLIP st = 0 \<and> currentXCLIPWeight > 0 \<and> 1 \<notin> e_indexedModels st
        then True
        else if currentVideoCLIPWeight > 0 \<and> 0 \<notin> e_indexedModels st then True
        else if currentXCLIPWeight > 0 \<and> 1 \<notin> e_indexedModels st then True
        else False)"

definition earlier_models :: "earlier_settings \<Rightarrow> nat list" where
  "earlier_models store =
     (let models0 = (if VideoCLIP_XL_v2_ranking store > 0 then [0] else [])
      in if X_CLIP_ranking store > 0 then models0 @ [1] else models0)"

definition sendIndexRequest_earlier_begin ::
  "earlier_settings \<Rightarrow> gif list \<Rightarrow> earlier_sync \<Rightarrow> earlier_sync \<times> earlier_request option" where
  "sendIndexRequest_earlier_begin store favorites st =
     (if e_pendingIndexRequest st \<or> user_key store = ''UNSET'' \<or> length (user_key store) \<noteq> 32
      then (st, None)
      else
        let validGifs = collect_validGifs favorites in
        if length validGifs = 0 then (st, None)
        else
          let names' = map fst validGifs;
              srcs = map snd validGifs;
              models' = earlier_models store
          in
          if length models' = 0 then (st, None)
          else
            (st\<lparr>e_pendingIndexRequest := True\<rparr>,
             Some \<lparr>e_request_url = e_api_url store @ ''/'' @ user_key store @ ''/index'',
                   e_names = names', e_media_srcs = srcs, e_models = models'\<rparr>))"

definition sendIndexRequest_earlier_settle ::
  "earlier_request \<Rightarrow> fetch_result \<Rightarrow> earlier_settings \<Rightarrow> earlier_sync \<Rightarrow> earlier_sync" where
  \<comment> \<open>the settings are read again after the \<open>await\<close>: \<open>store\<close> is their value by then\<close>
  "sendIndexRequest_earlier_settle q r store st =
     (let st' =
        (case r of
           Rejected \<Rightarrow> st
         | Fulfilled status \<Rightarrow>
             if \<not> response_ok status then st
             else st\<lparr>e_lastIndexedFavorites := e_names q,
                     e_indexedModels := fold insert (e_models q) (e_indexedModels st),
                     e_last_VideoCLIP_XL_v2 := VideoCLIP_XL_v2_ranking store,
                     e_last_X_CLIP := X_CLIP_ranking store\<rparr>)
      in st'\<lparr>e_pendingIndexRequest := False\<rparr>)"

section \<open>Rank fusion\<close>

text \<open>
  The part of \<open>performSearch\<close> that runs once the response is parsed. \<open>modelResults\<close>
  is the list of entries of \<open>data.results\<close> in the order of \<open>Object.entries\<close>; a
  model's list holds pairs of locator and raw score. \<open>weights\<close> is the record the
  code calls \<open>weights\<close>, again as its entries. (The host enumerates the keys of an
  object that look like integers first, in ascending order, then the others in the
  order of insertion. \<open>modelResults\<close> comes in that order, and the objects built from
  it key by key are then in the same order.)

  Scores and weights are rationals where the code has doubles. The two give the same
  order as long as rounding changes no comparison, which is so on the inputs that are
  evaluated below; in general the order of the code depends on the rounding. Model
  ids are taken to be none of the names that a plain object inherits (\<open>constructor\<close>,
  \<open>__proto__\<close> and the like), for which a lookup in the code does not give \<open>undefined\<close>.
\<close>

type_synonym ranked_list = "(string \<times> rat) list"

definition object_set :: "('k \<times> 'v) list \<Rightarrow> 'k \<Rightarrow> 'v \<Rightarrow> ('k \<times> 'v) list" where
  \<comment> \<open>\<open>obj[k] = v\<close>: an existing key keeps its place, a new one goes last\<close>
  "object_set obj k v =
     (if k \<in> fst ` set obj then map (\<lambda>(k', v'). if k' = k then (k', v) else (k', v')) obj
      else obj @ [(k, v)])"

definition set_add :: "'a list \<Rightarrow> 'a \<Rightarrow> 'a list" where
  \<comment> \<open>\<open>Set.add\<close>, the set kept in insertion order\<close>
  "set_add xs x = (if x \<in> set xs then xs else xs @ [x])"

definition sort_ascending :: "ranked_list \<Rightarrow> ranked_list" where
  \<comment> \<open>\<open>[...results].sort((a, b) => a[1] - b[1])\<close>; the sort of the host is stable\<close>
  "sort_ascending results = sort_key snd results"

definition rank_map :: "ranked_list \<Rightarrow> (string \<rightharpoonup> nat)" where
  "rank_map results =
     (let sorted = sort_ascending results in
      fold (\<lambda>((u, score), idx) m. m(u \<mapsto> idx + 1)) (zip sorted [0..<length sorted]) Map.empty)"

definition build_rankingMaps ::
  "(string \<times> ranked_list) list \<Rightarrow> (string \<times> (string \<rightharpoonup> nat)) list" where
  "build_rankingMaps modelResults =
     fold (\<lambda>(modelId, results) rankingMaps. object_set rankingMaps modelId (rank_map results))
       modelResults []"

definition allUrls :: "(string \<times> ranked_list) list \<Rightarrow> string list" where
  "allUrls modelResults =
     fold (\<lambda>(modelId, results) acc. fold (\<lambda>(u, score) acc'. set_add acc' u) results acc)
       modelResults []"

definition weight_of :: "(string \<times> rat) list \<Rightarrow> string \<Rightarrow> rat" where
  \<comment> \<open>\<open>weights[modelId] ?? 0.5\<close>\<close>
  "weight_of weights modelId = (case map_of weights modelId of None \<Rightarrow> 1 / 2 | Some w \<Rightarrow> w)"

definition accumulate ::
  "(string \<times> rat) list \<Rightarrow> (string \<times> (string \<rightharpoonup> nat)) list \<Rightarrow> string \<Rightarrow> rat \<times> rat" where
  \<comment> \<open>the inner loop: \<open>(totalScore, totalWeight)\<close> of one locator\<close>
  "accumulate weights rankingMaps u =
     fold (\<lambda>(modelId, rankMap) (totalScore, totalWeight).
             let weight = weight_of weights modelId in
             (case rankMap u of
                None \<Rightarrow> (totalScore, totalWeight)
              | Some rank \<Rightarrow>
                  let score = 1 / of_nat rank
                  in (totalScore + score * weight, totalWeight + weight)))
       rankingMaps (0, 0)"

definition aggregate_one ::
  "(string \<times> rat) list \<Rightarrow> (string \<times> (string \<rightharpoonup> nat)) list \<Rightarrow> gif list \<Rightarrow> string \<Rightarrow>
     (rat \<times> gif) option" where
  "aggregate_one weights rankingMaps favCopy' u =
     (case accumulate weights rankingMaps u of
        (totalScore, totalWeight) \<Rightarrow>
          if totalWeight = 0 then None
          else (case find (\<lambda>g. url g = u) favCopy' of
                  None \<Rightarrow> None
                | Some g \<Rightarrow> Some (totalScore / totalWeight, g)))"

definition aggregated ::
  "(string \<times> rat) list \<Rightarrow> (string \<times> ranked_list) list \<Rightarrow> gif list \<Rightarrow> (rat \<times> gif) list" where
  \<comment> \<open>\<open>Array.from(allUrls).map(...).filter(Boolean)\<close>, then the descending stable sort\<close>
  "aggregated weights modelResults favCopy' =
     sort_key (\<lambda>e. - fst e)
       (List.map_filter (aggregate_one weights (build_rankingMaps modelResults) favCopy')
          (allUrls modelResults))"

definition fuse :: "(string \<times> rat) list \<Rightarrow> (string \<times> ranked_list) list \<Rightarrow> gif list \<Rightarrow> gif list" where
  "fuse weights modelResults favCopy' = map snd (aggregated weights modelResults favCopy')"

text \<open>
  How the two revisions fill \<open>weights\<close>. The earlier one has two fixed models; the
  later one resolves every returned model id against the configured weights, first by
  name, then ignoring case, then by the default. \<open>toLowerCase\<close> is the string method of
  the host, taken as a parameter. (\<open>found\<close> is a configured key, so \<open>modelWeights[found]\<close>
  is defined; were it not, the \<open>undefined\<close> stored would read as 0.5 through \<open>??\<close>, which
  is what \<^const>\<open>weight_of\<close> returns.)
\<close>

definition earlier_weights :: "earlier_settings \<Rightarrow> (string \<times> rat) list" where
  "earlier_weights store = [(''0'', VideoCLIP_XL_v2_ranking store), (''1'', X_CLIP_ranking store)]"

definition resolve_weights ::
  "(string \<Rightarrow> string) \<Rightarrow> (string \<times> rat) list \<Rightarrow> string list \<Rightarrow> (string \<times> rat) list" where
  "resolve_weights toLowerCase configured modelIds =
     fold (\<lambda>modelId weights.
             (case map_of configured modelId of
                Some w \<Rightarrow> object_set weights modelId w
              | None \<Rightarrow>
                  (case find (\<lambda>k. toLowerCase k = toLowerCase modelId) (map fst configured) of
                     None \<Rightarrow> object_set weights modelId (1 / 2)
                   | Some found \<Rightarrow>
                       if found = [] then object_set weights modelId (1 / 2)
                       else object_set weights modelId (weight_of configured found))))
       modelIds []"

definition fuse_later ::
  "(string \<Rightarrow> string) \<Rightarrow> (string \<times> rat) list \<Rightarrow> (string \<times> ranked_list) list \<Rightarrow> gif list \<Rightarrow>
     gif list" where
  "fuse_later toLowerCase configured modelResults favCopy' =
     fuse (resolve_weights toLowerCase configured (map fst modelResults)) modelResults favCopy'"

definition ranks_above :: "'a \<Rightarrow> 'a \<Rightarrow> 'a list \<Rightarrow> bool" where
  \<comment> \<open>\<open>a\<close> comes before \<open>b\<close> in the list\<close>
  "ranks_above a b xs = (b \<in> set xs \<and> a \<in> set (takeWhile (\<lambda>e. e \<noteq> b) xs))"

section \<open>Query orchestrator\<close>

text \<open>
  The \<open>SearchBar\<close> component with what its callbacks touch: the two pieces of React
  state, the two refs, the props of the host instance, the timers that are armed, the
  controllers that were aborted, and the fetches in flight. Everything runs on one
  thread, so a run is a sequence of atomic events: the handlers \<open>onChange\<close> and
  \<open>onClear\<close>, the firing of an armed timer, a render of the component, the run of the
  effect that a render left pending, the settling of a fetch, the unmount cleanup, a
  render of the host (which passes the collection as \<open>favCopy\<close> and the result of
  \<open>getFav\<close> as \<open>favorites\<close>, in a new props object), and changes of the settings and of
  the account.

  A state setter only records the new value. The component is rendered some time
  later; when the \<open>debouncedQuery\<close> of that render differs from the one of the render
  before (\<open>rendered\<close>), the effect that depends on it is left pending, and it runs later
  still, with the \<open>debouncedQuery\<close> of its render. Handlers, timers and responses may
  run in between. The host runs a pending effect before it renders again and before it
  unmounts the component, so at most one is pending. A timer that was cleared never
  fires. A fetch whose signal was aborted rejects with an \<open>AbortError\<close>, and so does the
  reading of its body: \<open>performSearch_settle\<close> looks at the controller first. Scrolling
  the panel to the top is not modelled. (\<open>getFav\<close> also creates the key of an account
  that has none and asks the indexer whether to submit; the first is a change of the
  settings, the second does not touch the component.)

  Timers and controllers are named by numbers drawn from one counter, \<open>fresh\<close>; a ref
  that is \<open>null\<close> is \<open>None\<close>. \<open>props_id\<close> names the props object the instance holds; the
  fields \<open>favCopy\<close> and \<open>favorites\<close> are those of that object. \<open>performSearch\<close> keeps the
  props object it read when it started: \<open>sr_props\<close> names it, and \<open>sr_favCopy\<close> is its
  \<open>favCopy\<close>, which nothing assigns. What it writes to a props object that the instance
  no longer holds is not seen again. \<open>sr_weights\<close> stands for the entries of the weights
  object the closure holds, as \<open>performSearch\<close> read them when it started (\<open>start\<close> can
  add defaults to that object while the fetch is out; that is not modelled here). The
  handlers and the \<open>catch\<close> branch are the same in both
  revisions; \<open>performSearch_begin\<close> is that of the later one (the earlier one checks its
  single user key and sends the text only).
\<close>

datatype console_entry = ConsoleLog string | ConsoleError string

record search_request =
  sr_controller :: nat
  sr_key :: string
  sr_text :: string
  sr_models :: "string list"
  sr_weights :: "(string \<times> rat) list"
  sr_props :: nat
  sr_favCopy :: "gif list option"

datatype search_outcome =
    SearchResponse nat "(string \<times> ranked_list) list option"
  | SearchRejected

record search_bar =
  query :: string
  debouncedQuery :: string
  rendered :: string
  pending_effect :: "string option"
  abortControllerRef :: "nat option"
  debounceTimeoutRef :: "nat option"
  props_id :: nat
  favCopy :: "gif list option"
  favorites :: "gif list option"
  dead :: bool
  forceUpdates :: nat
  console :: "console_entry list"
  timers :: "(nat \<times> string) list"
  aborted :: "nat list"
  in_flight :: "search_request list"
  sent :: "search_request list"
  fresh :: nat
  sb_store :: settings_store
  sb_user :: string

definition clearTimeout :: "nat \<Rightarrow> search_bar \<Rightarrow> search_bar" where
  "clearTimeout t s = s\<lparr>timers := filter (\<lambda>(i, q). i \<noteq> t) (timers s)\<rparr>"

definition abort :: "nat \<Rightarrow> search_bar \<Rightarrow> search_bar" where
  "abort c s = s\<lparr>aborted := c # aborted s\<rparr>"

definition clear_and_abort :: "search_bar \<Rightarrow> search_bar" where
  \<comment> \<open>the two guarded statements that open \<open>onChange\<close>, \<open>onClear\<close> and the cleanup\<close>
  "clear_and_abort s =
     (let s1 = (case debounceTimeoutRef s of None \<Rightarrow> s | Some t \<Rightarrow> clearTimeout t s)
      in (case abortControllerRef s1 of None \<Rightarrow> s1 | Some c \<Rightarrow> abort c s1))"

definition performSearch_begin :: "string \<Rightarrow> search_bar \<Rightarrow> search_bar" where
  \<comment> \<open>\<open>performSearch\<close> up to the \<open>await\<close> of \<open>fetch\<close>, in the effect of a render whose
     \<open>debouncedQuery\<close> is \<open>q\<close>\<close>
  "performSearch_begin q s =
     (let keys = (case accountKeys (sb_store s) of None \<Rightarrow> [] | Some k \<Rightarrow> k);
          s0 = s\<lparr>sb_store := (sb_store s)\<lparr>accountKeys := Some keys\<rparr>\<rparr>
      in
      (case map_of keys (sb_user s) of
         None \<Rightarrow> s0
       | Some key \<Rightarrow>
           if length key \<noteq> 32 then s0
           else
             let c = fresh s0;
                 modelWeights' = getModelWeights (sb_store s0);
                 req = \<lparr>sr_controller = c, sr_key = key, sr_text = q,
                        sr_models = map fst (filter (\<lambda>(n, w). w > 0) modelWeights'),
                        sr_weights = modelWeights',
                        sr_props = props_id s0, sr_favCopy = favCopy s0\<rparr>
             in s0\<lparr>abortControllerRef := Some c, fresh := Suc c,
                    in_flight := in_flight s0 @ [req], sent := sent s0 @ [req]\<rparr>))"

definition search_effect :: "string \<Rightarrow> search_bar \<Rightarrow> search_bar" where
  \<comment> \<open>the body of the effect\<close>
  "search_effect q s = (if q = [] then s else performSearch_begin q s)"

definition run_effect :: "search_bar \<Rightarrow> search_bar" where
  \<comment> \<open>the pending effect runs, if there is one\<close>
  "run_effect s =
     (case pending_effect s of
        None \<Rightarrow> s
      | Some q \<Rightarrow> search_effect q (s\<lparr>pending_effect := None\<rparr>))"

definition schedule_effect :: "search_bar \<Rightarrow> search_bar" where
  \<comment> \<open>a render is committed: its effect is left pending when \<open>debouncedQuery\<close> changed\<close>
  "schedule_effect s =
     (if debouncedQuery s = rendered s then s
      else s\<lparr>rendered := debouncedQuery s, pending_effect := Some (debouncedQuery s)\<rparr>)"

definition commit :: "search_bar \<Rightarrow> search_bar" where
  \<comment> \<open>a render of the component, after the effect that was still pending\<close>
  "commit s = schedule_effect (run_effect s)"

definition setDebouncedQuery :: "string \<Rightarrow> search_bar \<Rightarrow> search_bar" where
  "setDebouncedQuery q s = s\<lparr>debouncedQuery := q\<rparr>"

definition onChange :: "string \<Rightarrow> search_bar \<Rightarrow> search_bar" where
  "onChange searchQuery s =
     (let s1 = clear_and_abort (s\<lparr>query := searchQuery\<rparr>) in
      if searchQuery = [] then
        let s2 = setDebouncedQuery [] s1
        in s2\<lparr>favorites := favCopy s2, forceUpdates := Suc (forceUpdates s2)\<rparr>
      else
        let t = fresh s1
        in s1\<lparr>debounceTimeoutRef := Some t, timers := timers s1 @ [(t, searchQuery)],
              fresh := Suc t\<rparr>)"

definition onClear :: "search_bar \<Rightarrow> search_bar" where
  "onClear s =
     (let s1 = clear_and_abort s;
          s2 = setDebouncedQuery [] (s1\<lparr>query := []\<rparr>)
      in (case favCopy s2 of
            None \<Rightarrow> s2
          | Some fc \<Rightarrow> s2\<lparr>favorites := favCopy s2, forceUpdates := Suc (forceUpdates s2)\<rparr>))"

definition unmount :: "search_bar \<Rightarrow> search_bar" where
  \<comment> \<open>the cleanup, after the effect that was still pending\<close>
  "unmount s = (clear_and_abort (run_effect s))\<lparr>dead := True\<rparr>"

definition timer_fires :: "nat \<Rightarrow> search_bar \<Rightarrow> search_bar" where
  \<comment> \<open>the callback of \<open>setTimeout\<close>, when the timer is still armed\<close>
  "timer_fires t s =
     (case map_of (timers s) t of
        None \<Rightarrow> s
      | Some searchQuery \<Rightarrow> setDebouncedQuery searchQuery (clearTimeout t s))"

definition search_failed :: "search_bar \<Rightarrow> search_bar" where
  \<comment> \<open>the \<open>catch\<close> branch of an error that is not an \<open>AbortError\<close>\<close>
  "search_failed s =
     s\<lparr>console := console s @ [ConsoleError ''Error fetching search results:''],
       forceUpdates := Suc (forceUpdates s)\<rparr>"

definition reaches_find :: "(string \<times> rat) list \<Rightarrow> (string \<times> ranked_list) list \<Rightarrow> bool" where
  \<comment> \<open>some locator gets as far as \<open>props.favCopy.find\<close>\<close>
  "reaches_find weights modelResults =
     list_ex (\<lambda>u. snd (accumulate weights (build_rankingMaps modelResults) u) \<noteq> 0)
       (allUrls modelResults)"

definition show_results :: "search_request \<Rightarrow> gif list \<Rightarrow> search_bar \<Rightarrow> search_bar" where
  \<comment> \<open>\<open>props.favorites = ...; instance.forceUpdate()\<close>, \<open>props\<close> being the object that
     \<open>performSearch\<close> read when it started\<close>
  "show_results req view s =
     (let s1 = (if sr_props req = props_id s then s\<lparr>favorites := Some view\<rparr> else s)
      in s1\<lparr>forceUpdates := Suc (forceUpdates s1)\<rparr>)"

definition performSearch_settle ::
  "(string \<Rightarrow> string) \<Rightarrow> search_request \<Rightarrow> search_outcome \<Rightarrow> search_bar \<Rightarrow> search_bar" where
  \<comment> \<open>the rest of \<open>performSearch\<close>, run when the fetch settles\<close>
  "performSearch_settle toLowerCase req outcome s =
     (if sr_controller req \<in> set (aborted s)
      then s\<lparr>console := console s @ [ConsoleLog ''Fetch aborted'']\<rparr>
      else
        (case outcome of
           SearchRejected \<Rightarrow> search_failed s
         | SearchResponse status body \<Rightarrow>
             if \<not> response_ok status then search_failed s
             else
               (case body of
                  None \<Rightarrow> search_failed s
                | Some modelResults \<Rightarrow>
                    let weights =
                      resolve_weights toLowerCase (sr_weights req) (map fst modelResults)
                    in
                    (case sr_favCopy req of
                       None \<Rightarrow>
                         if reaches_find weights modelResults then search_failed s
                         else show_results req [] s
                     | Some fc \<Rightarrow> show_results req (fuse weights modelResults fc) s))))"

definition getFav_view :: "search_bar \<Rightarrow> gif list \<Rightarrow> gif list" where
  \<comment> \<open>what \<open>getFav\<close> returns to the host for its prop \<open>favorites\<close>: the view kept in the
     props when it is shorter or longer than the collection, else the collection\<close>
  "getFav_view s hostFavorites =
     (if dead s then hostFavorites
      else (case favorites s of
              None \<Rightarrow> hostFavorites
            | Some filteredFavorites \<Rightarrow>
                if length filteredFavorites \<noteq> length hostFavorites then filteredFavorites
                else hostFavorites))"

definition host_render :: "gif list \<Rightarrow> search_bar \<Rightarrow> search_bar" where
  \<comment> \<open>the host renders: the pending effect runs, the instance gets a new props object,
     and the component is rendered with it\<close>
  "host_render hostFavorites s =
     (let s1 = run_effect s
      in schedule_effect
           (s1\<lparr>props_id := Suc (props_id s1), favCopy := Some hostFavorites,
               favorites := Some (getFav_view s1 hostFavorites)\<rparr>))"

datatype ui_event =
    OnChange string
  | OnClear
  | TimerFires nat
  | Commit
  | RunEffect
  | Response nat search_outcome
  | Unmount
  | SetSettings settings_store
  | SwitchAccount string
  | HostRender "gif list"

fun ui_step :: "(string \<Rightarrow> string) \<Rightarrow> ui_event \<Rightarrow> search_bar \<Rightarrow> search_bar" where
  "ui_step lc (OnChange q) s = onChange q s"
| "ui_step lc OnClear s = onClear s"
| "ui_step lc (TimerFires t) s = timer_fires t s"
| "ui_step lc Commit s = commit s"
| "ui_step lc RunEffect s = run_effect s"
| "ui_step lc (Response i outcome) s =
     (if i < length (in_flight s)
      then performSearch_settle lc (in_flight s ! i) outcome
             (s\<lparr>in_flight := remove_nth i (in_flight s)\<rparr>)
      else s)"
| "ui_step lc Unmount s = unmount s"
| "ui_step lc (SetSettings store') s = s\<lparr>sb_store := store'\<rparr>"
| "ui_step lc (SwitchAccount u) s = s\<lparr>sb_user := u\<rparr>"
| "ui_step lc (HostRender hostFavorites) s = host_render hostFavorites s"

definition ui_run :: "(string \<Rightarrow> string) \<Rightarrow> ui_event list \<Rightarrow> search_bar \<Rightarrow> search_bar" where
  "ui_run lc events s = fold (ui_step lc) events s"

definition mounted :: "settings_store \<Rightarrow> string \<Rightarrow> gif list option \<Rightarrow> gif list option \<Rightarrow> search_bar" where
  \<comment> \<open>the component as it is first rendered\<close>
  "mounted store u fc fav =
     \<lparr>query = [], debouncedQuery = [], rendered = [], pending_effect = None,
      abortControllerRef = None, debounceTimeoutRef = None,
      props_id = 0, favCopy = fc, favorites = fav, dead = False, forceUpdates = 0,
      console = [], timers = [], aborted = [], in_flight = [], sent = [], fresh = 0,
      sb_store = store, sb_user = u\<rparr>"

definition all_aborted :: "search_bar \<Rightarrow> bool" where
  \<comment> \<open>every fetch in flight has its controller aborted\<close>
  "all_aborted s = list_all (\<lambda>r. sr_controller r \<in> set (aborted s)) (in_flight s)"

subsection \<open>Example data\<close>

definition example_tenor :: gif where
  "example_tenor =
     \<lparr>format = 1, src = ''https://media.tenor.co/x/y.gif'', width = 1, height = 1,
      order = 0, url = ''tenor-1''\<rparr>"

definition example_evil :: gif where
  "example_evil =
     \<lparr>format = 1, src = ''https://evil.example.com/x.gif'', width = 1, height = 1,
      order = 1, url = ''evil-1''\<rparr>"

definition example_key :: string where
  "example_key = ''ABCDEFGHIJKLMNOPQRSTUVWXYZ012345''"

definition example_key2 :: string where
  "example_key2 = ''abcdefghijklmnopqrstuvwxyz678901''"

definition example_store :: "(string \<times> rat) list \<Rightarrow> settings_store" where
  "example_store weights =
     \<lparr>api_url = ''https://gif-search.woodie.dev'',
      accountKeys = Some [(''u1'', example_key), (''u2'', example_key2)],
      modelWeights = Some weights\<rparr>"

definition example_synced :: sync_state where
  "example_synced =
     \<lparr>lastUserId = Some ''u1'', lastIndexedFavorites = [''tenor-1''],
      indexedModels = {''A''}, pendingIndexRequest = False,
      lastRankingWeights = [(''A'', 1), (''B'', 0)]\<rparr>"

definition single_flight :: "world \<Rightarrow> bool" where
  \<comment> \<open>at most one suspended call, and the flag is set exactly while there is one\<close>
  "single_flight w =
     (length (w_in_flight w) \<le> 1 \<and>
      (pendingIndexRequest (w_sync w) \<longleftrightarrow> w_in_flight w \<noteq> []))"

definition example_switch_trace :: "event list" where
  \<comment> \<open>index under \<open>u1\<close> with model \<open>A\<close>, switch to \<open>u2\<close>, index with model \<open>B\<close>\<close>
  "example_switch_trace =
     [Call [example_tenor], Settle 0 (Fulfilled 200),
      SwitchUser ''u2'', SetStore (example_store [(''A'', 0), (''B'', 1)]),
      Call [example_tenor], Settle 0 (Fulfilled 200)]"

definition example_request :: "string list \<Rightarrow> index_request" where
  "example_request ms =
     \<lparr>request_url = ''https://gif-search.woodie.dev/ABCDEFGHIJKLMNOPQRSTUVWXYZ012345/index'',
      names = [''tenor-1''], media_srcs = [''https://media.tenor.co/x/y.gif''], models = ms\<rparr>"

definition example_request2 :: "string list \<Rightarrow> index_request" where
  "example_request2 ms =
     \<lparr>request_url = ''https://gif-search.woodie.dev/abcdefghijklmnopqrstuvwxyz678901/index'',
      names = [''tenor-1''], media_srcs = [''https://media.tenor.co/x/y.gif''], models = ms\<rparr>"

definition example_world :: world where
  "example_world = initial_world (example_store [(''A'', 1), (''B'', 0)]) ''u1''"

definition example_x :: gif where
  "example_x = \<lparr>format = 1, src = ''https://media.tenor.co/x.gif'', width = 1, height = 1,
      order = 0, url = ''x''\<rparr>"

definition example_y :: gif where
  "example_y = \<lparr>format = 1, src = ''https://media.tenor.co/y.gif'', width = 1, height = 1,
      order = 1, url = ''y''\<rparr>"

definition example_z :: gif where
  "example_z = \<lparr>format = 1, src = ''https://media.tenor.co/z.gif'', width = 1, height = 1,
      order = 2, url = ''z''\<rparr>"

definition example_A :: ranked_list where
  "example_A = [(''x'', 1), (''y'', 2), (''z'', 3)]"

definition example_B :: ranked_list where
  "example_B = [(''y'', 1), (''x'', 2)]"

definition example_mounted :: search_bar where
  \<comment> \<open>the component showing a filtered view \<open>[z]\<close> of the collection \<open>[x, y, z]\<close>\<close>
  "example_mounted =
     mounted (example_store [(''A'', 1), (''B'', 1)]) ''u1''
       (Some [example_x, example_y, example_z]) (Some [example_z])"

definition example_cat :: search_request where
  \<comment> \<open>the search for \<open>cat\<close> that the effect starts in the runs below\<close>
  "example_cat =
     \<lparr>sr_controller = 2, sr_key = example_key, sr_text = ''cat'', sr_models = [''A'', ''B''],
      sr_weights = [(''A'', 1), (''B'', 1)], sr_props = 0,
      sr_favCopy = Some [example_x, example_y, example_z]\<rparr>"

definition example_d :: search_request where
  "example_d =
     \<lparr>sr_controller = 3, sr_key = example_key, sr_text = ''d'', sr_models = [''A'', ''B''],
      sr_weights = [(''A'', 1), (''B'', 1)], sr_props = 0,
      sr_favCopy = Some [example_x, example_y, example_z]\<rparr>"

definition example_response :: search_outcome where
  \<comment> \<open>a response in which model \<open>B\<close> alone ranks \<open>y\<close> before \<open>x\<close>\<close>
  "example_response = SearchResponse 200 (Some [(''B'', example_B)])"

definition example_race :: "ui_event list" where
  \<comment> \<open>\<open>cat\<close> is typed, its timer fires and the component is rendered; \<open>d\<close> is typed
     before the effect of that render runs; then the effect runs\<close>
  "example_race = [OnChange ''cat'', TimerFires 0, Commit, OnChange ''d'', RunEffect]"

definition example_second :: "ui_event list" where
  \<comment> \<open>the timer of \<open>d\<close> fires, the component is rendered and the effect runs\<close>
  "example_second = [TimerFires 1, Commit, RunEffect]"

definition example_response_d :: search_outcome where
  \<comment> \<open>a response in which model \<open>A\<close> alone ranks \<open>x\<close>, \<open>y\<close>, \<open>z\<close>\<close>
  "example_response_d = SearchResponse 200 (Some [(''A'', example_A)])"

definition example_raced :: search_bar where
  \<comment> \<open>the component after \<open>example_race\<close>: \<open>d\<close> is in the input and its timer is armed,
     the search for \<open>cat\<close> is in flight and its controller is not aborted\<close>
  "example_raced =
     example_mounted\<lparr>query := ''d'', debouncedQuery := ''cat'', rendered := ''cat'',
        abortControllerRef := Some 2, debounceTimeoutRef := Some 1, timers := [(1, ''d'')],
        in_flight := [example_cat], sent := [example_cat], fresh := 3\<rparr>"

definition example_two_searches :: search_bar where
  \<comment> \<open>the component after \<open>example_race\<close> and \<open>example_second\<close>: both searches are in
     flight, the ref holds the controller of the second, none is aborted\<close>
  "example_two_searches =
     example_mounted\<lparr>query := ''d'', debouncedQuery := ''d'', rendered := ''d'',
        abortControllerRef := Some 3, debounceTimeoutRef := Some 1, timers := [],
        in_flight := [example_cat, example_d], sent := [example_cat, example_d],
        fresh := 4\<rparr>"

definition example_earlier :: "rat \<Rightarrow> rat \<Rightarrow> earlier_settings" where
  "example_earlier v x =
     \<lparr>e_api_url = ''https://gif-search.woodie.dev'', user_key = example_key,
      VideoCLIP_XL_v2_ranking = v, X_CLIP_ranking = x\<rparr>"

definition example_earlier_synced :: earlier_sync where
  "example_earlier_synced =
     \<lparr>e_lastIndexedFavorites = [''tenor-1''], e_indexedModels = {0},
      e_pendingIndexRequest = False, e_last_VideoCLIP_XL_v2 = 1, e_last_X_CLIP = 0\<rparr>"

section \<open>The validator meets its rules\<close>

lemma startsWith_prefix: "startsWith s p = prefix p s"
  unfolding startsWith_def
  by (metis append_eq_conv_conj prefix_def take_is_prefix)

lemma endsWith_suffix: "endsWith s p = suffix p s"
  unfolding endsWith_def
  by (metis suffix_def suffix_drop append_eq_conv_conj suffix_length_le length_append
      diff_add_inverse2)

lemma indexOf_scan_takeWhile:
  "indexOf_scan c xs i = (if c \<in> set xs then int (i + length (takeWhile (\<lambda>x. x \<noteq> c) xs)) else - 1)"
  by (induction xs arbitrary: i) auto

lemma domain_of_takeWhile:
  "k \<le> length s \<Longrightarrow> domain_of s k = takeWhile (\<lambda>c. c \<noteq> CHR ''/'') (drop k s)"
proof -
  assume k: "k \<le> length s"
  let ?r = "drop k s"
  let ?t = "takeWhile (\<lambda>c. c \<noteq> CHR ''/'') ?r"
  show ?thesis
  proof (cases "CHR ''/'' \<in> set ?r")
    case False
    then have "\<forall>x\<in>set ?r. x \<noteq> CHR ''/''" by auto
    then have eq: "?t = ?r" by (rule takeWhile_eq_all_conv[THEN iffD2])
    from False k show ?thesis
      by (simp add: eq domain_of_def indexOf_def indexOf_scan_takeWhile substring_def Let_def min_def max_def)
  next
    case True
    have le: "length ?t \<le> length ?r" by (rule length_takeWhile_le)
    have eq2: "take (length ?t) ?r = ?t" by (metis takeWhile_eq_take)
    have n: "nat (int k + int (length ?t)) = k + length ?t" by simp
    from True k le show ?thesis
      by (simp add: eq2 n domain_of_def indexOf_def indexOf_scan_takeWhile substring_def Let_def min_def max_def)
  qed
qed

lemma domainOffset_of_cases:
  "domainOffset_of s = (if prefix ''http://'' s then Some 7 else if prefix ''https://'' s then Some 8 else None)"
  by (simp add: domainOffset_of_def startsWith_prefix)

lemma not_both_schemes: "prefix ''http://'' s \<Longrightarrow> \<not> prefix ''https://'' s"
  by (auto simp: prefix_def)

lemma domain_invalid_iff:
  "domain_invalid d = (\<not> (d \<noteq> [] \<and> length d \<le> 256 \<and> (suffix ''.discordapp.net'' d \<or> d = ''media.tenor.co'')))"
  by (auto simp: domain_invalid_def endsWith_suffix)

lemma valid_item_code:
  "valid_item g = (length (url g) \<le> 512 \<and> length (src g) \<le> 2000 \<and>
     (case domainOffset_of (src g) of None \<Rightarrow> False
      | Some k \<Rightarrow> \<not> domain_invalid (domain_of (src g) k)))"
proof -
  have l7: "prefix ''http://'' s \<Longrightarrow> 7 \<le> length s" for s :: string
    by (auto simp: prefix_def)
  have l8: "prefix ''https://'' s \<Longrightarrow> 8 \<le> length s" for s :: string
    by (auto simp: prefix_def)
  have d7: "locator_domain ''http://'' s = takeWhile (\<lambda>c. c \<noteq> CHR ''/'') (drop 7 s)" for s
    by (simp add: locator_domain_def eval_nat_numeral)
  have d8: "locator_domain ''https://'' s = takeWhile (\<lambda>c. c \<noteq> CHR ''/'') (drop 8 s)" for s
    by (simp add: locator_domain_def eval_nat_numeral)
  show ?thesis
  proof (cases "prefix ''http://'' (src g)")
    case True
    with not_both_schemes[of "src g"] l7[of "src g"] show ?thesis
      by (auto simp add: valid_item_def domainOffset_of_cases domain_invalid_iff domain_of_takeWhile
          d7 Let_def)
  next
    case False
    with l8[of "src g"] show ?thesis
      by (auto simp add: valid_item_def domainOffset_of_cases domain_invalid_iff domain_of_takeWhile
          d8 Let_def)
  qed
qed

lemma getValidGifUrls_step_eq:
  "getValidGifUrls_step g acc = (if valid_item g then acc @ [url g] else acc)"
  by (auto simp: getValidGifUrls_step_def valid_item_code Let_def split: option.splits)

lemma fold_getValidGifUrls_step:
  "fold getValidGifUrls_step gs acc = acc @ map url (filter valid_item gs)"
  by (induction gs arbitrary: acc) (simp_all add: getValidGifUrls_step_eq)

lemma validGifs_step_eq:
  "validGifs_step g acc = (if valid_item g then acc @ [(url g, src g)] else acc)"
  by (auto simp: validGifs_step_def valid_item_code Let_def split: option.splits)

lemma fold_validGifs_step:
  "fold validGifs_step gs acc = acc @ map (\<lambda>g. (url g, src g)) (filter valid_item gs)"
  by (induction gs arbitrary: acc) (simp_all add: validGifs_step_eq)

lemma getValidGifUrls_filter: "getValidGifUrls favs = map url (filter valid_item favs)"
  by (simp add: getValidGifUrls_def fold_getValidGifUrls_step)

lemma collect_validGifs_filter:
  "collect_validGifs favs = map (\<lambda>g. (url g, src g)) (filter valid_item favs)"
  by (simp add: collect_validGifs_def fold_validGifs_step)

text \<open>
  C3. For every list of items the validator returns exactly the items that meet the
  rules (\<^const>\<open>valid_item\<close>: id of at most 512 characters, locator of at most 2000,
  scheme \<open>http://\<close> or \<open>https://\<close>, a non-empty domain of at most 256 characters that
  ends with \<open>.discordapp.net\<close> or is \<open>media.tenor.co\<close>), in input order and with
  duplicates kept; the others are dropped. Both validation loops are total functions,
  so neither can fail. \<open>getValidGifUrls\<close> yields the ids, the loop inside
  \<open>sendIndexRequest\<close> the pairs of id and locator.
\<close>

theorem validator_exact:
  "getValidGifUrls favs = map url (filter valid_item favs) \<and>
   collect_validGifs favs = map (\<lambda>g. (url g, src g)) (filter valid_item favs)"
  by (simp add: getValidGifUrls_filter collect_validGifs_filter)

lemma valid_item_examples: "valid_item example_tenor \<and> \<not> valid_item example_evil"
  by (simp add: valid_item_def example_tenor_def example_evil_def locator_domain_def Let_def
      suffix_def)

theorem validator_exact_witness:
  "getValidGifUrls [example_tenor, example_evil, example_tenor] = [''tenor-1'', ''tenor-1''] \<and>
   collect_validGifs [example_tenor, example_evil, example_tenor] =
     [(''tenor-1'', ''https://media.tenor.co/x/y.gif''),
      (''tenor-1'', ''https://media.tenor.co/x/y.gif'')]"
  using validator_exact [of "[example_tenor, example_evil, example_tenor]"] valid_item_examples
  by (simp add: example_tenor_def)

section \<open>The change detector\<close>

lemma every_indexed_nth:
  "every_indexed p xs = (\<forall>i < length xs. p (xs ! i) i)"
  unfolding every_indexed_def list_all_length by simp

lemma positional_eq:
  "(length xs \<noteq> length ys \<or> \<not> every_indexed (\<lambda>u index. js_index ys index = Some u) xs)
     = (length xs \<noteq> length ys \<or> (\<exists>i < length xs. xs ! i \<noteq> ys ! i))"
proof (cases "length xs = length ys")
  case True
  then have "every_indexed (\<lambda>u index. js_index ys index = Some u) xs
               = (\<forall>i < length xs. xs ! i = ys ! i)"
    by (auto simp: every_indexed_nth js_index_def)
  then show ?thesis by blast
next
  case False
  then show ?thesis by simp
qed

lemma shouldIndex_models_iff:
  "shouldIndex_models mw lastW indexed = (\<exists>(m, w) \<in> set mw. w > 0 \<and> m \<notin> indexed)"
  by (induction mw lastW indexed rule: shouldIndex_models.induct) (auto simp: Let_def)

lemma url_example_tenor: "url example_tenor = ''tenor-1''"
  by (simp add: example_tenor_def)

lemma getValidGifUrls_example:
  "getValidGifUrls [example_tenor] = [''tenor-1'']"
  "getValidGifUrls [example_tenor, example_tenor] = [''tenor-1'', ''tenor-1'']"
  using valid_item_examples by (simp_all add: getValidGifUrls_filter url_example_tenor)

lemma shouldIndex_later_iff:
  "shouldIndex store currentUserId favs st \<longleftrightarrow>
     lastUserId st \<noteq> Some currentUserId \<or>
     (length (getValidGifUrls favs) \<noteq> length (lastIndexedFavorites st) \<or>
      (\<exists>i < length (getValidGifUrls favs).
          getValidGifUrls favs ! i \<noteq> lastIndexedFavorites st ! i)) \<or>
     (\<exists>(m, w) \<in> set (getModelWeights store). w > 0 \<and> m \<notin> indexedModels st)"
  unfolding shouldIndex_def Let_def shouldIndex_models_iff positional_eq
  by auto

lemma shouldIndex_earlier_iff:
  "shouldIndex_earlier estore favs est \<longleftrightarrow>
     (length (getValidGifUrls favs) \<noteq> length (e_lastIndexedFavorites est) \<or>
      (\<exists>i < length (getValidGifUrls favs).
          getValidGifUrls favs ! i \<noteq> e_lastIndexedFavorites est ! i)) \<or>
     (VideoCLIP_XL_v2_ranking estore > 0 \<and> 0 \<notin> e_indexedModels est) \<or>
     (X_CLIP_ranking estore > 0 \<and> 1 \<notin> e_indexedModels est)"
  unfolding shouldIndex_earlier_def Let_def positional_eq
  by auto

text \<open>
  C2. \<open>shouldIndex\<close> answers true exactly when (a) the current user id differs from the
  recorded one, or (b) the validated ids differ from \<open>lastIndexedFavorites\<close> in length
  or at some position, or (c) some model of weight \<open>> 0\<close> is not in \<open>indexedModels\<close>;
  otherwise false. The earlier revision keeps no user id: there the answer is true
  exactly when (b) or (c) holds, (c) being over its two models. Both functions read the
  tracking variables and return a boolean only: neither has an assignment to any of
  them, which their types record.
\<close>

theorem shouldIndex_iff:
  "(shouldIndex store currentUserId favs st \<longleftrightarrow>
      lastUserId st \<noteq> Some currentUserId \<or>
      (length (getValidGifUrls favs) \<noteq> length (lastIndexedFavorites st) \<or>
       (\<exists>i < length (getValidGifUrls favs).
           getValidGifUrls favs ! i \<noteq> lastIndexedFavorites st ! i)) \<or>
      (\<exists>(m, w) \<in> set (getModelWeights store). w > 0 \<and> m \<notin> indexedModels st)) \<and>
   (shouldIndex_earlier estore favs' est \<longleftrightarrow>
      (length (getValidGifUrls favs') \<noteq> length (e_lastIndexedFavorites est) \<or>
       (\<exists>i < length (getValidGifUrls favs').
           getValidGifUrls favs' ! i \<noteq> e_lastIndexedFavorites est ! i)) \<or>
      (VideoCLIP_XL_v2_ranking estore > 0 \<and> 0 \<notin> e_indexedModels est) \<or>
      (X_CLIP_ranking estore > 0 \<and> 1 \<notin> e_indexedModels est))"
  by (rule conjI) (rule shouldIndex_later_iff, rule shouldIndex_earlier_iff)

theorem shouldIndex_iff_witness:
  "shouldIndex (example_store [(''A'', 1), (''B'', 0)]) ''u1'' [example_tenor] initial_sync_state \<and>
   \<not> shouldIndex (example_store [(''A'', 1), (''B'', 0)]) ''u1'' [example_tenor] example_synced \<and>
   shouldIndex (example_store [(''A'', 1), (''B'', 1)]) ''u1'' [example_tenor] example_synced \<and>
   shouldIndex (example_store [(''A'', 1), (''B'', 0)]) ''u1'' [example_tenor, example_tenor]
     example_synced \<and>
   \<not> shouldIndex_earlier (example_earlier 1 0) [example_tenor] example_earlier_synced \<and>
   shouldIndex_earlier (example_earlier 1 1) [example_tenor] example_earlier_synced"
  unfolding shouldIndex_iff[THEN conjunct1] shouldIndex_iff[THEN conjunct2] getValidGifUrls_example
  by (simp add: example_synced_def initial_sync_state_def example_store_def
      getModelWeights_def example_earlier_def example_earlier_synced_def)

text \<open>
  C10. The decision does not depend on the recorded weights: two states that differ
  only in \<open>lastRankingWeights\<close> get the same answer, for every list of items, every
  settings store and every user; and so in the earlier revision, for its two recorded
  weights.
\<close>

theorem shouldIndex_ignores_lastRankingWeights:
  "shouldIndex store currentUserId favs (st\<lparr>lastRankingWeights := wa\<rparr>) =
   shouldIndex store currentUserId favs (st\<lparr>lastRankingWeights := wb\<rparr>) \<and>
   shouldIndex_earlier estore favs' (est\<lparr>e_last_VideoCLIP_XL_v2 := va, e_last_X_CLIP := xa\<rparr>) =
   shouldIndex_earlier estore favs' (est\<lparr>e_last_VideoCLIP_XL_v2 := vb, e_last_X_CLIP := xb\<rparr>)"
  by (simp add: shouldIndex_def shouldIndex_models_iff shouldIndex_earlier_iff)

theorem shouldIndex_ignores_lastRankingWeights_witness:
  "shouldIndex (example_store [(''A'', 1), (''B'', 1)]) ''u1'' [example_tenor]
     (example_synced\<lparr>lastRankingWeights := [(''A'', 1), (''B'', 0)]\<rparr>) \<and>
   shouldIndex (example_store [(''A'', 1), (''B'', 1)]) ''u1'' [example_tenor]
     (example_synced\<lparr>lastRankingWeights := [(''A'', 1), (''B'', 1)]\<rparr>) \<and>
   shouldIndex_earlier (example_earlier 1 1) [example_tenor]
     (example_earlier_synced\<lparr>e_last_VideoCLIP_XL_v2 := 1, e_last_X_CLIP := 0\<rparr>) \<and>
   shouldIndex_earlier (example_earlier 1 1) [example_tenor]
     (example_earlier_synced\<lparr>e_last_VideoCLIP_XL_v2 := 1, e_last_X_CLIP := 1\<rparr>)"
proof -
  note inst = shouldIndex_ignores_lastRankingWeights [where
      store = "example_store [(''A'', 1), (''B'', 1)]" and currentUserId = "''u1''" and
      favs = "[example_tenor]" and st = example_synced and wa = "[(''A'', 1), (''B'', 0)]" and
      wb = "[(''A'', 1), (''B'', 1)]" and estore = "example_earlier 1 1" and
      favs' = "[example_tenor]" and est = example_earlier_synced and
      va = 1 and xa = 0 and vb = 1 and xb = 1]
  have later: "shouldIndex (example_store [(''A'', 1), (''B'', 1)]) ''u1'' [example_tenor]
     (example_synced\<lparr>lastRankingWeights := [(''A'', 1), (''B'', 0)]\<rparr>)"
    unfolding shouldIndex_later_iff getValidGifUrls_example
    by (simp add: example_synced_def example_store_def getModelWeights_def)
  have earlier: "shouldIndex_earlier (example_earlier 1 1) [example_tenor]
     (example_earlier_synced\<lparr>e_last_VideoCLIP_XL_v2 := 1, e_last_X_CLIP := 0\<rparr>)"
    unfolding shouldIndex_earlier_iff getValidGifUrls_example
    by (simp add: example_earlier_def example_earlier_synced_def)
  from inst later earlier show ?thesis by blast
qed

section \<open>The indexer\<close>

lemma fold_insert_set: "fold insert xs A = A \<union> set xs"
  by (induction xs arbitrary: A) auto

lemma positive_models_fold:
  "fold (\<lambda>(name, weight) acc. if weight > 0 then acc @ [name] else acc) ws acc
     = acc @ map fst (filter (\<lambda>(m, w). w > 0) ws)"
  by (induction ws arbitrary: acc) (auto)

lemma positive_models_eq: "positive_models ws = map fst (filter (\<lambda>(m, w). w > 0) ws)"
  by (simp add: positive_models_def positive_models_fold)

lemma settle_pending [simp]: "pendingIndexRequest (sendIndexRequest_settle p r st) = False"
  by (simp add: sendIndexRequest_settle_def Let_def)

lemma settle_failure:
  "\<not> fetch_ok r \<Longrightarrow> sendIndexRequest_settle p r st = st\<lparr>pendingIndexRequest := False\<rparr>"
  by (auto simp: sendIndexRequest_settle_def fetch_ok_def Let_def split: fetch_result.splits)

lemma settle_success:
  "fetch_ok r \<Longrightarrow> sendIndexRequest_settle p r st =
     st\<lparr>lastIndexedFavorites := names (s_request p), lastUserId := Some (s_id p),
        indexedModels := indexedModels st \<union> set (models (s_request p)),
        lastRankingWeights := s_modelWeights p, pendingIndexRequest := False\<rparr>"
  by (auto simp: sendIndexRequest_settle_def fetch_ok_def Let_def fold_insert_set split: fetch_result.splits)

lemma begin_pending:
  "pendingIndexRequest st \<Longrightarrow>
   sendIndexRequest_begin store u favs st =
     (store\<lparr>accountKeys := Some (case accountKeys store of None \<Rightarrow> [] | Some k \<Rightarrow> k)\<rparr>, st, None)"
  by (simp add: sendIndexRequest_begin_def Let_def)

lemma begin_Some:
  assumes "sendIndexRequest_begin store u favs st = (store', st', Some p)"
  shows "\<not> pendingIndexRequest st" and "st' = st\<lparr>pendingIndexRequest := True\<rparr>"
    and "names (s_request p) = getValidGifUrls favs"
    and "media_srcs (s_request p) = map src (filter valid_item favs)"
    and "models (s_request p) = map fst (filter (\<lambda>(m, w). w > 0) (getModelWeights store))"
    and "s_modelWeights p = getModelWeights store" and "s_id p = u"
    and "names (s_request p) \<noteq> []" and "models (s_request p) \<noteq> []"
  using assms
  by (auto simp: sendIndexRequest_begin_def Let_def getValidGifUrls_filter collect_validGifs_filter positive_models_eq
      getModelWeights_def comp_def split: if_splits option.splits)

lemma begin_None:
  assumes "sendIndexRequest_begin store u favs st = (store', st', None)"
  shows "st' = st"
  using assms
  by (auto simp: sendIndexRequest_begin_def Let_def split: if_splits option.splits)

lemma single_flight_initial: "single_flight (initial_world store u)"
  by (simp add: single_flight_def initial_world_def initial_sync_state_def)

lemma single_flight_step: "single_flight w \<Longrightarrow> single_flight (step e w)"
proof (cases e)
  case (Call favs)
  assume inv: "single_flight w"
  obtain store' st' req where b: "sendIndexRequest_begin (w_store w) (w_user w) favs (w_sync w) = (store', st', req)"
    by (metis prod_cases3)
  show ?thesis
  proof (cases req)
    case None
    with b begin_None[of "w_store w" "w_user w" favs "w_sync w" store' st'] inv Call show ?thesis
      by (simp add: single_flight_def)
  next
    case (Some p)
    with b begin_Some(1,2)[of "w_store w" "w_user w" favs "w_sync w" store' st' p] inv Call show ?thesis
      by (simp add: single_flight_def)
  qed
next
  case (Settle i r)
  assume "single_flight w"
  with Settle show ?thesis
    by (cases "w_in_flight w") (auto simp: single_flight_def remove_nth_def)
next
  case (SetStore s)
  assume "single_flight w"
  with SetStore show ?thesis by (simp add: single_flight_def)
next
  case (SwitchUser u)
  assume "single_flight w"
  with SwitchUser show ?thesis by (simp add: single_flight_def)
next
  case Start
  assume "single_flight w"
  with Start show ?thesis by (simp add: single_flight_def)
next
  case (ModelsLoaded fetched)
  assume "single_flight w"
  with ModelsLoaded show ?thesis by (simp add: single_flight_def Let_def)
qed

lemma single_flight_run: "single_flight w \<Longrightarrow> single_flight (run es w)"
  unfolding run_def by (induction es arbitrary: w) (simp_all add: single_flight_step)

lemma quiet_step:
  assumes "pendingIndexRequest (w_sync w)" "\<not> is_settle e"
  shows "w_network (step e w) = w_network w \<and> pendingIndexRequest (w_sync (step e w)) \<and>
         w_in_flight (step e w) = w_in_flight w"
  using assms by (cases e) (simp_all add: begin_pending is_settle_def Let_def)

lemma quiet_run:
  assumes "pendingIndexRequest (w_sync w)" "list_all (\<lambda>e. \<not> is_settle e) es"
  shows "w_network (run es w) = w_network w \<and> pendingIndexRequest (w_sync (run es w)) \<and>
         w_in_flight (run es w) = w_in_flight w"
  using assms unfolding run_def
proof (induction es arbitrary: w)
  case Nil
  then show ?case by simp
next
  case (Cons e es)
  from Cons.prems have q: "w_network (step e w) = w_network w \<and>
      pendingIndexRequest (w_sync (step e w)) \<and> w_in_flight (step e w) = w_in_flight w"
    by (simp add: quiet_step)
  with Cons.IH[of "step e w"] Cons.prems show ?case by simp
qed

lemma indexedModels_step: "indexedModels (w_sync w) \<subseteq> indexedModels (w_sync (step e w))"
proof (cases e)
  case (Call favs)
  obtain store' st' req where b: "sendIndexRequest_begin (w_store w) (w_user w) favs (w_sync w) = (store', st', req)"
    by (metis prod_cases3)
  show ?thesis
  proof (cases req)
    case None
    with b begin_None[OF b[unfolded None]] Call show ?thesis by simp
  next
    case (Some p)
    with b begin_Some(2)[OF b[unfolded Some]] Call show ?thesis by simp
  qed
next
  case (Settle i r)
  then show ?thesis
    by (cases "fetch_ok r") (auto simp: settle_success settle_failure)
qed (simp_all add: Let_def)

lemma indexedModels_run: "indexedModels (w_sync w) \<subseteq> indexedModels (w_sync (run es w))"
  unfolding run_def
proof (induction es arbitrary: w)
  case Nil
  then show ?case by simp
next
  case (Cons e es)
  have "indexedModels (w_sync w) \<subseteq> indexedModels (w_sync (step e w))" by (rule indexedModels_step)
  also have "\<dots> \<subseteq> indexedModels (w_sync (fold step es (step e w)))" by (rule Cons.IH)
  finally show ?case by simp
qed

lemma collect_validGifs_example:
  "collect_validGifs [example_tenor] = [(''tenor-1'', ''https://media.tenor.co/x/y.gif'')]"
  using valid_item_examples by (simp add: collect_validGifs_filter) (simp add: example_tenor_def)

lemma begin_example:
  assumes "\<not> pendingIndexRequest st" "positive_models ws \<noteq> []"
  shows "sendIndexRequest_begin (example_store ws) ''u1'' [example_tenor] st =
     (example_store ws, st\<lparr>pendingIndexRequest := True\<rparr>,
      Some \<lparr>s_request = example_request (positive_models ws), s_id = ''u1'',
            s_modelWeights = ws\<rparr>)"
  using assms
  by (simp add: sendIndexRequest_begin_def Let_def collect_validGifs_example example_store_def
      example_key_def example_request_def getModelWeights_def)

lemma begin_example2:
  assumes "\<not> pendingIndexRequest st" "positive_models ws \<noteq> []"
  shows "sendIndexRequest_begin (example_store ws) ''u2'' [example_tenor] st =
     (example_store ws, st\<lparr>pendingIndexRequest := True\<rparr>,
      Some \<lparr>s_request = example_request2 (positive_models ws), s_id = ''u2'',
            s_modelWeights = ws\<rparr>)"
  using assms
  by (simp add: sendIndexRequest_begin_def Let_def collect_validGifs_example example_store_def
      example_key2_def example_request2_def getModelWeights_def)

lemma settle_outcome:
  "if fetch_ok r
    then lastIndexedFavorites (sendIndexRequest_settle p r st2) = names (s_request p) \<and>
         indexedModels (sendIndexRequest_settle p r st2) =
           indexedModels st2 \<union> set (models (s_request p)) \<and>
         lastRankingWeights (sendIndexRequest_settle p r st2) = s_modelWeights p
    else lastIndexedFavorites (sendIndexRequest_settle p r st2) = lastIndexedFavorites st2 \<and>
         indexedModels (sendIndexRequest_settle p r st2) = indexedModels st2 \<and>
         lastRankingWeights (sendIndexRequest_settle p r st2) = lastRankingWeights st2 \<and>
         lastUserId (sendIndexRequest_settle p r st2) = lastUserId st2"
  by (cases "fetch_ok r") (simp_all add: settle_success settle_failure)

lemma call_outcome:
  assumes run: "sendIndexRequest store u favs r st = (store', st', req)"
  shows "if fetch_ok r \<and> req \<noteq> None
       then names (the req) = getValidGifUrls favs \<and>
            models (the req) = map fst (filter (\<lambda>(m, w). w > 0) (getModelWeights store)) \<and>
            lastIndexedFavorites st' = names (the req) \<and>
            indexedModels st' = indexedModels st \<union> set (models (the req)) \<and>
            lastRankingWeights st' = getModelWeights store
       else lastIndexedFavorites st' = lastIndexedFavorites st \<and>
            indexedModels st' = indexedModels st \<and>
            lastRankingWeights st' = lastRankingWeights st \<and>
            lastUserId st' = lastUserId st"
proof -
  obtain s1 st1 q where b: "sendIndexRequest_begin store u favs st = (s1, st1, q)"
    by (metis prod_cases3)
  show ?thesis
  proof (cases q)
    case None
    with b run begin_None[of store u favs st s1 st1] show ?thesis
      by (simp add: sendIndexRequest_def)
  next
    case (Some p')
    note facts = begin_Some[OF b[unfolded Some]]
    from b Some run have out: "st' = sendIndexRequest_settle p' r st1" "req = Some (s_request p')"
      by (simp_all add: sendIndexRequest_def)
    show ?thesis
    proof (cases "fetch_ok r")
      case True
      with out facts show ?thesis by (simp add: settle_success)
    next
      case False
      with out facts show ?thesis by (simp add: settle_failure)
    qed
  qed
qed

lemma fetch_ok_examples: "fetch_ok (Fulfilled 200)" "\<not> fetch_ok (Fulfilled 500)" "\<not> fetch_ok Rejected"
  by (simp_all add: fetch_ok_def response_ok_def)

lemma positive_models_examples:
  "positive_models [(''A'', 1), (''B'', 0)] = [''A'']"
  "positive_models [(''A'', 0), (''B'', 1)] = [''B'']"
  by (simp_all add: positive_models_eq)

lemma call_example:
  "sendIndexRequest (example_store [(''A'', 1), (''B'', 0)]) ''u1'' [example_tenor] (Fulfilled 200)
       initial_sync_state =
     (example_store [(''A'', 1), (''B'', 0)], example_synced, Some (example_request [''A'']))"
proof -
  have b: "sendIndexRequest_begin (example_store [(''A'', 1), (''B'', 0)]) ''u1'' [example_tenor]
      initial_sync_state =
     (example_store [(''A'', 1), (''B'', 0)], initial_sync_state\<lparr>pendingIndexRequest := True\<rparr>,
      Some \<lparr>s_request = example_request (positive_models [(''A'', 1), (''B'', 0)]),
            s_id = ''u1'', s_modelWeights = [(''A'', 1), (''B'', 0)]\<rparr>)"
    by (rule begin_example) (simp_all add: initial_sync_state_def positive_models_examples)
  show ?thesis
    unfolding sendIndexRequest_def b
    by (simp add: settle_success fetch_ok_examples positive_models_examples example_synced_def
        initial_sync_state_def example_request_def)
qed

lemma earlier_begin_Some:
  assumes "sendIndexRequest_earlier_begin estore favs est = (est', Some q)"
  shows "e_names q = getValidGifUrls favs" and "e_models q = earlier_models estore"
    and "est' = est\<lparr>e_pendingIndexRequest := True\<rparr>"
  using assms
  by (auto simp: sendIndexRequest_earlier_begin_def Let_def getValidGifUrls_filter
      collect_validGifs_filter comp_def split: if_splits)

lemma earlier_settle_outcome:
  "if fetch_ok r
   then e_lastIndexedFavorites (sendIndexRequest_earlier_settle q r estore est) = e_names q \<and>
        e_indexedModels (sendIndexRequest_earlier_settle q r estore est) =
          e_indexedModels est \<union> set (e_models q) \<and>
        e_last_VideoCLIP_XL_v2 (sendIndexRequest_earlier_settle q r estore est) =
          VideoCLIP_XL_v2_ranking estore \<and>
        e_last_X_CLIP (sendIndexRequest_earlier_settle q r estore est) = X_CLIP_ranking estore
   else e_lastIndexedFavorites (sendIndexRequest_earlier_settle q r estore est) =
          e_lastIndexedFavorites est \<and>
        e_indexedModels (sendIndexRequest_earlier_settle q r estore est) = e_indexedModels est \<and>
        e_last_VideoCLIP_XL_v2 (sendIndexRequest_earlier_settle q r estore est) =
          e_last_VideoCLIP_XL_v2 est \<and>
        e_last_X_CLIP (sendIndexRequest_earlier_settle q r estore est) = e_last_X_CLIP est"
  by (cases r)
     (simp_all add: sendIndexRequest_earlier_settle_def fetch_ok_def Let_def fold_insert_set)

text \<open>
  C5. A submission whose fetch is rejected or answered outside 200..299 leaves
  \<open>lastIndexedFavorites\<close>, \<open>indexedModels\<close>, \<open>lastRankingWeights\<close> (and \<open>lastUserId\<close>) as
  they were, and so does a call that issues no request. After an answer in 200..299,
  \<open>lastIndexedFavorites\<close> is the list of submitted ids in submission order (the validated
  ids of the call), \<open>indexedModels\<close> is its old value joined with the submitted models
  (the models of weight \<open>> 0\<close>), and \<open>lastRankingWeights\<close> is the weights the call read.
  The second part states the same of the continuation alone, whatever state it meets
  when the fetch settles. The third part is the continuation of the earlier revision,
  which records the two weights as the settings hold them when the fetch settles.
\<close>

theorem submission_outcome:
  "(sendIndexRequest store u favs r st = (store', st', req) \<longrightarrow>
      (if fetch_ok r \<and> req \<noteq> None
       then names (the req) = getValidGifUrls favs \<and>
            models (the req) = map fst (filter (\<lambda>(m, w). w > 0) (getModelWeights store)) \<and>
            lastIndexedFavorites st' = names (the req) \<and>
            indexedModels st' = indexedModels st \<union> set (models (the req)) \<and>
            lastRankingWeights st' = getModelWeights store
       else lastIndexedFavorites st' = lastIndexedFavorites st \<and>
            indexedModels st' = indexedModels st \<and>
            lastRankingWeights st' = lastRankingWeights st \<and>
            lastUserId st' = lastUserId st)) \<and>
   (if fetch_ok r
    then lastIndexedFavorites (sendIndexRequest_settle p r st2) = names (s_request p) \<and>
         indexedModels (sendIndexRequest_settle p r st2) =
           indexedModels st2 \<union> set (models (s_request p)) \<and>
         lastRankingWeights (sendIndexRequest_settle p r st2) = s_modelWeights p
    else lastIndexedFavorites (sendIndexRequest_settle p r st2) = lastIndexedFavorites st2 \<and>
         indexedModels (sendIndexRequest_settle p r st2) = indexedModels st2 \<and>
         lastRankingWeights (sendIndexRequest_settle p r st2) = lastRankingWeights st2 \<and>
         lastUserId (sendIndexRequest_settle p r st2) = lastUserId st2) \<and>
   (if fetch_ok r
    then e_lastIndexedFavorites (sendIndexRequest_earlier_settle q r estore est) = e_names q \<and>
         e_indexedModels (sendIndexRequest_earlier_settle q r estore est) =
           e_indexedModels est \<union> set (e_models q) \<and>
         e_last_VideoCLIP_XL_v2 (sendIndexRequest_earlier_settle q r estore est) =
           VideoCLIP_XL_v2_ranking estore \<and>
         e_last_X_CLIP (sendIndexRequest_earlier_settle q r estore est) = X_CLIP_ranking estore
    else e_lastIndexedFavorites (sendIndexRequest_earlier_settle q r estore est) =
           e_lastIndexedFavorites est \<and>
         e_indexedModels (sendIndexRequest_earlier_settle q r estore est) = e_indexedModels est \<and>
         e_last_VideoCLIP_XL_v2 (sendIndexRequest_earlier_settle q r estore est) =
           e_last_VideoCLIP_XL_v2 est \<and>
         e_last_X_CLIP (sendIndexRequest_earlier_settle q r estore est) = e_last_X_CLIP est) \<and>
   (sendIndexRequest_earlier_begin estore' favs' est1 = (est1', Some q') \<longrightarrow>
      e_names q' = getValidGifUrls favs' \<and> e_models q' = earlier_models estore')"
proof (intro conjI impI)
  show "if fetch_ok r
    then lastIndexedFavorites (sendIndexRequest_settle p r st2) = names (s_request p) \<and>
         indexedModels (sendIndexRequest_settle p r st2) =
           indexedModels st2 \<union> set (models (s_request p)) \<and>
         lastRankingWeights (sendIndexRequest_settle p r st2) = s_modelWeights p
    else lastIndexedFavorites (sendIndexRequest_settle p r st2) = lastIndexedFavorites st2 \<and>
         indexedModels (sendIndexRequest_settle p r st2) = indexedModels st2 \<and>
         lastRankingWeights (sendIndexRequest_settle p r st2) = lastRankingWeights st2 \<and>
         lastUserId (sendIndexRequest_settle p r st2) = lastUserId st2"
    by (rule settle_outcome)
qed (erule call_outcome, rule earlier_settle_outcome,
     erule earlier_begin_Some(1), erule earlier_begin_Some(2))

theorem submission_outcome_witness:
  "sendIndexRequest (example_store [(''A'', 1), (''B'', 0)]) ''u1'' [example_tenor] (Fulfilled 200)
       initial_sync_state =
     (example_store [(''A'', 1), (''B'', 0)], example_synced, Some (example_request [''A''])) \<and>
   fetch_ok (Fulfilled 200) \<and>
   lastIndexedFavorites example_synced = getValidGifUrls [example_tenor] \<and>
   indexedModels example_synced = indexedModels initial_sync_state \<union> {''A''} \<and>
   lastRankingWeights example_synced = [(''A'', 1), (''B'', 0)] \<and>
   \<not> fetch_ok Rejected \<and>
   indexedModels (sendIndexRequest_settle
       \<lparr>s_request = example_request [''B''], s_id = ''u2'', s_modelWeights = [(''B'', 1)]\<rparr>
       Rejected example_synced) = indexedModels example_synced"
proof -
  note inst = submission_outcome [of "example_store [(''A'', 1), (''B'', 0)]" "''u1''"
      "[example_tenor]" "Fulfilled 200" initial_sync_state "example_store [(''A'', 1), (''B'', 0)]"
      example_synced "Some (example_request [''A''])"]
  have one: "lastIndexedFavorites example_synced = getValidGifUrls [example_tenor] \<and>
      indexedModels example_synced = indexedModels initial_sync_state \<union> {''A''} \<and>
      lastRankingWeights example_synced = [(''A'', 1), (''B'', 0)]"
    using inst [THEN conjunct1] call_example fetch_ok_examples(1)
    by (simp add: example_request_def example_store_def getModelWeights_def)
  have two: "indexedModels (sendIndexRequest_settle
       \<lparr>s_request = example_request [''B''], s_id = ''u2'', s_modelWeights = [(''B'', 1)]\<rparr>
       Rejected example_synced) = indexedModels example_synced"
    using submission_outcome [of _ _ _ Rejected _ _ _ _
        "\<lparr>s_request = example_request [''B''], s_id = ''u2'', s_modelWeights = [(''B'', 1)]\<rparr>"
        example_synced, THEN conjunct2, THEN conjunct1] fetch_ok_examples(3)
    by simp
  from one two call_example fetch_ok_examples show ?thesis by simp
qed

lemma call_issues_one:
  assumes b: "sendIndexRequest_begin (w_store w) (w_user w) favs (w_sync w) = (store', st', Some p)"
    and q: "list_all (\<lambda>e. \<not> is_settle e) es"
  shows "w_network (run (Call favs # es) w) = w_network w @ [s_request p]"
proof -
  let ?w1 = "step (Call favs) w"
  from b have w1: "w_network ?w1 = w_network w @ [s_request p]" "w_sync ?w1 = st'" by simp_all
  from begin_Some(2)[OF b] w1 have "pendingIndexRequest (w_sync ?w1)" by simp
  from quiet_run[OF this q] w1 show ?thesis by (simp add: run_def)
qed

lemma call_clears_flag:
  assumes "sendIndexRequest store u favs r st = (store', st', req)" "\<not> pendingIndexRequest st"
  shows "\<not> pendingIndexRequest st'"
proof -
  obtain s1 st1 q where b: "sendIndexRequest_begin store u favs st = (s1, st1, q)"
    by (metis prod_cases3)
  show ?thesis
  proof (cases q)
    case None
    with b assms begin_None[of store u favs st s1 st1] show ?thesis
      by (simp add: sendIndexRequest_def)
  next
    case (Some p')
    with b assms show ?thesis by (auto simp: sendIndexRequest_def)
  qed
qed

text \<open>
  C6. (1) A call made while \<open>pendingIndexRequest\<close> is set returns at once: it issues no
  request and leaves every tracking variable and the settings as they are (\<open>??=\<close> writes
  an empty key table only into settings that have none, which the settings of a call
  that found its key never are). (2) In every run from the
  initial state at most one submission is outstanding. (3) When a call issues a request,
  any number of further calls and changes of the surroundings before the fetch settles
  add no request: the network has seen exactly one. (4) The continuation clears the
  flag whatever the fetch result, and a whole call that found the flag clear leaves it
  clear.
\<close>

theorem single_flight_indexer:
  "(pendingIndexRequest st \<longrightarrow>
      sendIndexRequest_begin store u favs st =
        (if accountKeys store = None then store\<lparr>accountKeys := Some []\<rparr> else store, st, None)) \<and>
   length (w_in_flight (run es (initial_world store0 u0))) \<le> 1 \<and>
   (sendIndexRequest_begin (w_store w) (w_user w) favs1 (w_sync w) = (store1, st1, Some p1) \<and>
    list_all (\<lambda>e. \<not> is_settle e) es1 \<longrightarrow>
      w_network (run (Call favs1 # es1) w) = w_network w @ [s_request p1]) \<and>
   \<not> pendingIndexRequest (sendIndexRequest_settle p2 r st2) \<and>
   (sendIndexRequest store3 u3 favs3 r3 st3 = (store3', st3', req3) \<and> \<not> pendingIndexRequest st3
      \<longrightarrow> \<not> pendingIndexRequest st3')"
proof -
  have "single_flight (run es (initial_world store0 u0))"
    by (rule single_flight_run) (rule single_flight_initial)
  then have "length (w_in_flight (run es (initial_world store0 u0))) \<le> 1"
    by (simp add: single_flight_def)
  moreover have "pendingIndexRequest st \<longrightarrow>
      sendIndexRequest_begin store u favs st =
        (if accountKeys store = None then store\<lparr>accountKeys := Some []\<rparr> else store, st, None)"
    using begin_pending[of st store u favs] by (cases "accountKeys store") auto
  ultimately show ?thesis
    using call_issues_one[of w favs1 store1 st1 p1 es1]
      call_clears_flag[of store3 u3 favs3 r3 st3 store3' st3' req3]
    by (simp only: settle_pending simp_thms) blast
qed

lemma example_world_fields:
  "w_store example_world = example_store [(''A'', 1), (''B'', 0)]"
  "w_user example_world = ''u1''"
  "w_sync example_world = initial_sync_state"
  "w_network example_world = []"
  by (simp_all add: example_world_def initial_world_def)

theorem single_flight_indexer_witness:
  "pendingIndexRequest (example_synced\<lparr>pendingIndexRequest := True\<rparr>) \<and>
   sendIndexRequest_begin (example_store [(''A'', 1)]) ''u1'' [example_tenor]
       (example_synced\<lparr>pendingIndexRequest := True\<rparr>) =
     (example_store [(''A'', 1)], example_synced\<lparr>pendingIndexRequest := True\<rparr>, None) \<and>
   length (w_in_flight (run [Call [example_tenor], Call [example_tenor]] example_world)) \<le> 1 \<and>
   w_network (run [Call [example_tenor], Call [example_tenor], SwitchUser ''u2'',
                   Call [example_tenor, example_tenor]] example_world) = [example_request [''A'']] \<and>
   \<not> pendingIndexRequest (sendIndexRequest_settle
       \<lparr>s_request = example_request [''A''], s_id = ''u1'', s_modelWeights = [(''A'', 1)]\<rparr>
       Rejected (example_synced\<lparr>pendingIndexRequest := True\<rparr>)) \<and>
   \<not> pendingIndexRequest example_synced"
proof -
  have b: "sendIndexRequest_begin (w_store example_world) (w_user example_world) [example_tenor]
      (w_sync example_world) =
     (example_store [(''A'', 1), (''B'', 0)], initial_sync_state\<lparr>pendingIndexRequest := True\<rparr>,
      Some \<lparr>s_request = example_request [''A''],
            s_id = ''u1'', s_modelWeights = [(''A'', 1), (''B'', 0)]\<rparr>)"
    unfolding example_world_fields positive_models_examples(1)[symmetric]
    by (rule begin_example) (simp_all add: initial_sync_state_def positive_models_examples)
  have q: "list_all (\<lambda>e. \<not> is_settle e)
      [Call [example_tenor], SwitchUser ''u2'', Call [example_tenor, example_tenor]]"
    by (simp add: is_settle_def)
  note inst = single_flight_indexer [of "example_synced\<lparr>pendingIndexRequest := True\<rparr>"
      "example_store [(''A'', 1)]" "''u1''" "[example_tenor]"
      "[Call [example_tenor], Call [example_tenor]]" "example_store [(''A'', 1), (''B'', 0)]" "''u1''"
      example_world "[example_tenor]" "example_store [(''A'', 1), (''B'', 0)]"
      "initial_sync_state\<lparr>pendingIndexRequest := True\<rparr>"
      "\<lparr>s_request = example_request [''A''],
            s_id = ''u1'', s_modelWeights = [(''A'', 1), (''B'', 0)]\<rparr>"
      "[Call [example_tenor], SwitchUser ''u2'', Call [example_tenor, example_tenor]]"
      "\<lparr>s_request = example_request [''A''], s_id = ''u1'', s_modelWeights = [(''A'', 1)]\<rparr>"
      Rejected "example_synced\<lparr>pendingIndexRequest := True\<rparr>"
      "example_store [(''A'', 1), (''B'', 0)]" "''u1''" "[example_tenor]" "Fulfilled 200"
      initial_sync_state "example_store [(''A'', 1), (''B'', 0)]" example_synced
      "Some (example_request [''A''])"]
  have p: "pendingIndexRequest (example_synced\<lparr>pendingIndexRequest := True\<rparr>)" by simp
  have i: "\<not> pendingIndexRequest initial_sync_state" by (simp add: initial_sync_state_def)
  have keys: "(if accountKeys (example_store ws) = None
      then (example_store ws)\<lparr>accountKeys := Some []\<rparr> else example_store ws) = example_store ws"
    for ws by (simp add: example_store_def)
  from inst p have r1: "sendIndexRequest_begin (example_store [(''A'', 1)]) ''u1'' [example_tenor]
       (example_synced\<lparr>pendingIndexRequest := True\<rparr>) =
     (example_store [(''A'', 1)], example_synced\<lparr>pendingIndexRequest := True\<rparr>, None)"
    unfolding keys by blast
  from inst have r2:
    "length (w_in_flight (run [Call [example_tenor], Call [example_tenor]] example_world)) \<le> 1"
    unfolding example_world_def by blast
  from inst b q have "w_network (run [Call [example_tenor], Call [example_tenor], SwitchUser ''u2'',
      Call [example_tenor, example_tenor]] example_world) =
      w_network example_world @ [s_request \<lparr>s_request = example_request [''A''],
            s_id = ''u1'', s_modelWeights = [(''A'', 1), (''B'', 0)]\<rparr>]"
    by blast
  then have r3: "w_network (run [Call [example_tenor], Call [example_tenor], SwitchUser ''u2'',
      Call [example_tenor, example_tenor]] example_world) = [example_request [''A'']]"
    by (simp add: example_world_fields)
  from inst have r4: "\<not> pendingIndexRequest (sendIndexRequest_settle
       \<lparr>s_request = example_request [''A''], s_id = ''u1'', s_modelWeights = [(''A'', 1)]\<rparr>
       Rejected (example_synced\<lparr>pendingIndexRequest := True\<rparr>))"
    by blast
  from inst call_example i have r5: "\<not> pendingIndexRequest example_synced"
    by blast
  from p r1 r2 r3 r4 r5 show ?thesis by blast
qed

text \<open>
  The account in the change detector and the indexer: while the recorded user id differs
  from the current one \<open>shouldIndex\<close> answers true whatever else is recorded, and a
  submission that succeeds records the current user, the ids it submitted and the
  weights it read, and adds its models to \<open>indexedModels\<close>, from which nothing is ever
  taken (\<open>indexedModels_run\<close>).
\<close>

lemma call_success_epoch:
  assumes run: "sendIndexRequest store u favs r st = (store', st', req)"
    and ok: "fetch_ok r" and some: "req \<noteq> None"
  shows "lastUserId st' = Some u \<and> lastIndexedFavorites st' = getValidGifUrls favs \<and>
         lastRankingWeights st' = getModelWeights store \<and>
         indexedModels st' = indexedModels st \<union> set (models (the req))"
proof -
  obtain s1 st1 q where b: "sendIndexRequest_begin store u favs st = (s1, st1, q)"
    by (metis prod_cases3)
  from b run some obtain p' where q: "q = Some p'"
    by (cases q) (auto simp: sendIndexRequest_def)
  note facts = begin_Some[OF b[unfolded q]]
  from b q run have out: "st' = sendIndexRequest_settle p' r st1" "req = Some (s_request p')"
    by (simp_all add: sendIndexRequest_def)
  with ok facts show ?thesis by (simp add: settle_success)
qed

lemma epoch_forces_resync: "lastUserId st \<noteq> Some u \<Longrightarrow> shouldIndex store u favs st"
  by (simp add: shouldIndex_def)

lemma run_Cons: "run (e # es) w = run es (step e w)"
  by (simp add: run_def)

lemma run_Nil: "run [] w = w"
  by (simp add: run_def)

lemma example_switch_run:
  "run example_switch_trace example_world =
     \<lparr>w_store = example_store [(''A'', 0), (''B'', 1)], w_user = ''u2'',
      w_sync = \<lparr>lastUserId = Some ''u2'', lastIndexedFavorites = [''tenor-1''],
                indexedModels = {''A'', ''B''}, pendingIndexRequest = False,
                lastRankingWeights = [(''A'', 0), (''B'', 1)]\<rparr>,
      w_in_flight = [], w_network = [example_request [''A''], example_request2 [''B'']]\<rparr>"
proof -
  let ?S1 = "example_store [(''A'', 1), (''B'', 0)]"
  let ?S2 = "example_store [(''A'', 0), (''B'', 1)]"
  let ?p1 = "\<lparr>s_request = example_request [''A''], s_id = ''u1'',
             s_modelWeights = [(''A'', 1), (''B'', 0)]\<rparr>"
  let ?p2 = "\<lparr>s_request = example_request2 [''B''], s_id = ''u2'',
             s_modelWeights = [(''A'', 0), (''B'', 1)]\<rparr>"
  have b1: "sendIndexRequest_begin ?S1 ''u1'' [example_tenor] initial_sync_state =
      (?S1, initial_sync_state\<lparr>pendingIndexRequest := True\<rparr>, Some ?p1)"
    unfolding positive_models_examples(1)[symmetric]
    by (rule begin_example) (simp_all add: initial_sync_state_def positive_models_examples)
  have s1: "step (Call [example_tenor]) example_world =
      \<lparr>w_store = ?S1, w_user = ''u1'', w_sync = initial_sync_state\<lparr>pendingIndexRequest := True\<rparr>,
       w_in_flight = [?p1], w_network = [example_request [''A'']]\<rparr>"
    by (simp add: example_world_def initial_world_def b1)
  have s2: "step (Settle 0 (Fulfilled 200)) \<lparr>w_store = ?S1, w_user = ''u1'',
       w_sync = initial_sync_state\<lparr>pendingIndexRequest := True\<rparr>,
       w_in_flight = [?p1], w_network = [example_request [''A'']]\<rparr> =
      \<lparr>w_store = ?S1, w_user = ''u1'', w_sync = example_synced,
       w_in_flight = [], w_network = [example_request [''A'']]\<rparr>"
    by (simp add: settle_success fetch_ok_examples remove_nth_def example_synced_def
        initial_sync_state_def example_request_def)
  have s3: "step (SwitchUser ''u2'') \<lparr>w_store = ?S1, w_user = ''u1'', w_sync = example_synced,
       w_in_flight = [], w_network = [example_request [''A'']]\<rparr> =
      \<lparr>w_store = ?S1, w_user = ''u2'', w_sync = example_synced,
       w_in_flight = [], w_network = [example_request [''A'']]\<rparr>"
    by simp
  have s4: "step (SetStore ?S2) \<lparr>w_store = ?S1, w_user = ''u2'', w_sync = example_synced,
       w_in_flight = [], w_network = [example_request [''A'']]\<rparr> =
      \<lparr>w_store = ?S2, w_user = ''u2'', w_sync = example_synced,
       w_in_flight = [], w_network = [example_request [''A'']]\<rparr>"
    by simp
  have b2: "sendIndexRequest_begin ?S2 ''u2'' [example_tenor] example_synced =
      (?S2, example_synced\<lparr>pendingIndexRequest := True\<rparr>, Some ?p2)"
    unfolding positive_models_examples(2)[symmetric]
    by (rule begin_example2) (simp_all add: example_synced_def positive_models_examples)
  have s5: "step (Call [example_tenor]) \<lparr>w_store = ?S2, w_user = ''u2'', w_sync = example_synced,
       w_in_flight = [], w_network = [example_request [''A'']]\<rparr> =
      \<lparr>w_store = ?S2, w_user = ''u2'', w_sync = example_synced\<lparr>pendingIndexRequest := True\<rparr>,
       w_in_flight = [?p2], w_network = [example_request [''A''], example_request2 [''B'']]\<rparr>"
    by (simp add: b2)
  have s6: "step (Settle 0 (Fulfilled 200)) \<lparr>w_store = ?S2, w_user = ''u2'',
       w_sync = example_synced\<lparr>pendingIndexRequest := True\<rparr>,
       w_in_flight = [?p2], w_network = [example_request [''A''], example_request2 [''B'']]\<rparr> =
     \<lparr>w_store = ?S2, w_user = ''u2'',
      w_sync = \<lparr>lastUserId = Some ''u2'', lastIndexedFavorites = [''tenor-1''],
                indexedModels = {''A'', ''B''}, pendingIndexRequest = False,
                lastRankingWeights = [(''A'', 0), (''B'', 1)]\<rparr>,
      w_in_flight = [], w_network = [example_request [''A''], example_request2 [''B'']]\<rparr>"
    by (simp add: settle_success fetch_ok_examples remove_nth_def example_synced_def
        example_request2_def insert_commute)
  show ?thesis
    unfolding example_switch_trace_def run_Cons run_Nil s1 s2 s3 s4 s5 s6
    by (rule refl)
qed

text \<open>
  C7. The code at a change of account. User \<open>u1\<close> has model \<open>A\<close> enabled and the
  collection is indexed under \<open>u1\<close>'s key; the account changes to \<open>u2\<close>, who has model
  \<open>B\<close> enabled, and the collection is indexed under \<open>u2\<close>'s key. Two requests went out,
  model \<open>A\<close> under the first key and model \<open>B\<close> under the second, and the recorded
  user is \<open>u2\<close>. Yet \<open>A\<close>, recorded under \<open>u1\<close>, is still in \<open>indexedModels\<close>, and
  \<open>shouldIndex\<close> reads it: when \<open>u2\<close> enables \<open>A\<close> it answers false, so \<open>A\<close> is never
  submitted under \<open>u2\<close>'s key.
\<close>

theorem stale_indexedModels_after_account_switch:
  "lastUserId (w_sync (run example_switch_trace example_world)) = Some ''u2'' \<and>
   w_network (run example_switch_trace example_world) =
     [example_request [''A''], example_request2 [''B'']] \<and>
   ''A'' \<in> indexedModels (w_sync (run example_switch_trace example_world)) \<and>
   \<not> shouldIndex (example_store [(''A'', 1), (''B'', 1)]) ''u2'' [example_tenor]
       (w_sync (run example_switch_trace example_world))"
  unfolding example_switch_run
  by (simp add: shouldIndex_def getValidGifUrls_example every_indexed_def js_index_def
      example_store_def getModelWeights_def)

theorem stale_indexedModels_after_account_switch_witness:
  "''A'' \<in> indexedModels (w_sync (run example_switch_trace example_world)) \<and>
   \<not> shouldIndex (example_store [(''A'', 1), (''B'', 1)]) ''u2'' [example_tenor]
       (w_sync (run example_switch_trace example_world))"
  using stale_indexedModels_after_account_switch by blast

section \<open>Rank fusion\<close>

lemma rank_map_examples:
  "rank_map example_A = [''x'' \<mapsto> 1, ''y'' \<mapsto> 2, ''z'' \<mapsto> 3]"
  "rank_map example_B = [''y'' \<mapsto> 1, ''x'' \<mapsto> 2]"
  by (simp_all add: rank_map_def sort_ascending_def example_A_def example_B_def Let_def
      upt_rec[of 0] upt_rec[of 1] upt_rec[of 2] upt_rec[of 3] numeral_2_eq_2 numeral_3_eq_3)


lemma build_rankingMaps_pair:
  "a \<noteq> b \<Longrightarrow> build_rankingMaps [(a, ra), (b, rb)] = [(a, rank_map ra), (b, rank_map rb)]"
  by (simp add: build_rankingMaps_def object_set_def)

lemma allUrls_examples:
  "allUrls [(a, example_A), (b, example_B)] = [''x'', ''y'', ''z'']"
  "allUrls [(b, example_B), (a, example_A)] = [''y'', ''x'', ''z'']"
  by (simp_all add: allUrls_def set_add_def example_A_def example_B_def)

lemma resolve_weights_example:
  "resolve_weights lc [(''A'', 1), (''B'', 1)] [''A'', ''B''] = [(''A'', 1), (''B'', 1)]"
  "resolve_weights lc [(''A'', 1), (''B'', 1)] [''B'', ''A''] = [(''B'', 1), (''A'', 1)]"
  by (simp_all add: resolve_weights_def object_set_def)

lemma url_examples:
  "url example_x = ''x''" "url example_y = ''y''" "url example_z = ''z''"
  by (simp_all add: example_x_def example_y_def example_z_def)

lemma aggregate_one_AB:
  assumes "weight_of ws a = w" "weight_of ws b = w" "w \<noteq> 0"
  shows
  "aggregate_one ws [(a, rank_map example_A), (b, rank_map example_B)]
     [example_x, example_y, example_z] ''x'' = Some (3 / 4, example_x)"
  "aggregate_one ws [(a, rank_map example_A), (b, rank_map example_B)]
     [example_x, example_y, example_z] ''y'' = Some (3 / 4, example_y)"
  "aggregate_one ws [(a, rank_map example_A), (b, rank_map example_B)]
     [example_x, example_y, example_z] ''z'' = Some (1 / 3, example_z)"
  using assms
  by (simp_all add: aggregate_one_def accumulate_def rank_map_examples Let_def url_examples
      field_simps)

lemma aggregate_one_BA:
  assumes "weight_of ws a = w" "weight_of ws b = w" "w \<noteq> 0"
  shows
  "aggregate_one ws [(b, rank_map example_B), (a, rank_map example_A)]
     [example_x, example_y, example_z] ''x'' = Some (3 / 4, example_x)"
  "aggregate_one ws [(b, rank_map example_B), (a, rank_map example_A)]
     [example_x, example_y, example_z] ''y'' = Some (3 / 4, example_y)"
  "aggregate_one ws [(b, rank_map example_B), (a, rank_map example_A)]
     [example_x, example_y, example_z] ''z'' = Some (1 / 3, example_z)"
  using assms
  by (simp_all add: aggregate_one_def accumulate_def rank_map_examples Let_def url_examples
      field_simps)

lemma aggregated_AB:
  assumes "a \<noteq> b" "weight_of ws a = w" "weight_of ws b = w" "w \<noteq> 0"
  shows "aggregated ws [(a, example_A), (b, example_B)] [example_x, example_y, example_z] =
     [(3 / 4, example_x), (3 / 4, example_y), (1 / 3, example_z)]"
  using assms(1) aggregate_one_AB[OF assms(2,3,4)]
  by (simp add: aggregated_def build_rankingMaps_pair allUrls_examples)

lemma aggregated_BA:
  assumes "a \<noteq> b" "weight_of ws a = w" "weight_of ws b = w" "w \<noteq> 0"
  shows "aggregated ws [(b, example_B), (a, example_A)] [example_x, example_y, example_z] =
     [(3 / 4, example_y), (3 / 4, example_x), (1 / 3, example_z)]"
  using assms(1) aggregate_one_BA[OF assms(2,3,4)]
  by (simp add: aggregated_def build_rankingMaps_pair[of b a] allUrls_examples)

lemma weight_of_AB:
  "weight_of [(''A'', 1), (''B'', 1)] ''A'' = 1" "weight_of [(''A'', 1), (''B'', 1)] ''B'' = 1"
  "weight_of [(''B'', 1), (''A'', 1)] ''A'' = 1" "weight_of [(''B'', 1), (''A'', 1)] ''B'' = 1"
  "weight_of (earlier_weights (example_earlier 1 1)) ''0'' = 1"
  "weight_of (earlier_weights (example_earlier 1 1)) ''1'' = 1"
  "weight_of (earlier_weights store) ''A'' = 1 / 2" "weight_of (earlier_weights store) ''B'' = 1 / 2"
  by (simp_all add: weight_of_def earlier_weights_def example_earlier_def)

lemma fuse_later_AB:
  "fuse_later lc [(''A'', 1), (''B'', 1)] [(''A'', example_A), (''B'', example_B)]
     [example_x, example_y, example_z] = [example_x, example_y, example_z]"
  using aggregated_AB[of "''A''" "''B''" "[(''A'', 1), (''B'', 1)]" 1]
  by (simp add: fuse_later_def fuse_def resolve_weights_example weight_of_AB)

lemma fuse_later_BA:
  "fuse_later lc [(''A'', 1), (''B'', 1)] [(''B'', example_B), (''A'', example_A)]
     [example_x, example_y, example_z] = [example_y, example_x, example_z]"
  using aggregated_BA[of "''A''" "''B''" "[(''B'', 1), (''A'', 1)]" 1]
  by (simp add: fuse_later_def fuse_def resolve_weights_example weight_of_AB)

lemma fuse_earlier_01:
  "fuse (earlier_weights (example_earlier 1 1)) [(''0'', example_A), (''1'', example_B)]
     [example_x, example_y, example_z] = [example_x, example_y, example_z]"
  using aggregated_AB[of "''0''" "''1''" "earlier_weights (example_earlier 1 1)" 1]
  by (simp add: fuse_def weight_of_AB)

lemma fuse_earlier_AB:
  "fuse (earlier_weights store) [(''A'', example_A), (''B'', example_B)]
     [example_x, example_y, example_z] = [example_x, example_y, example_z]"
  using aggregated_AB[of "''A''" "''B''" "earlier_weights store" "1 / 2"]
  by (simp add: fuse_def weight_of_AB)

lemma examples_distinct:
  "example_x \<noteq> example_y" "example_y \<noteq> example_z" "example_x \<noteq> example_z"
  by (simp_all add: example_x_def example_y_def example_z_def)

text \<open>
  C4, as the code has it. With A's list first in the response, the union enumerates
  \<open>x, y, z\<close>; \<open>x\<close> and \<open>y\<close> tie at the combined score 3/4 and \<open>z\<close> has 1/3; the stable
  sort keeps the tie in the order of the union, so the fused order is \<open>x, y, z\<close>: \<open>x\<close>
  above \<open>y\<close> above \<open>z\<close>. With B's list first the union enumerates \<open>y, x, z\<close> and that is
  the fused order. The earlier revision, with the models \<open>0\<close> and \<open>1\<close> of weight 1 (or
  with \<open>A\<close> and \<open>B\<close>, which it weighs 0.5 each), also returns \<open>x, y, z\<close>.
\<close>

theorem fused_order_follows_union_order:
  "allUrls [(''A'', example_A), (''B'', example_B)] = [''x'', ''y'', ''z''] \<and>
   aggregated [(''A'', 1), (''B'', 1)] [(''A'', example_A), (''B'', example_B)]
     [example_x, example_y, example_z] =
     [(3 / 4, example_x), (3 / 4, example_y), (1 / 3, example_z)] \<and>
   fuse_later lc [(''A'', 1), (''B'', 1)] [(''A'', example_A), (''B'', example_B)]
     [example_x, example_y, example_z] = [example_x, example_y, example_z] \<and>
   ranks_above example_x example_y
     (fuse_later lc [(''A'', 1), (''B'', 1)] [(''A'', example_A), (''B'', example_B)]
        [example_x, example_y, example_z]) \<and>
   ranks_above example_y example_z
     (fuse_later lc [(''A'', 1), (''B'', 1)] [(''A'', example_A), (''B'', example_B)]
        [example_x, example_y, example_z]) \<and>
   allUrls [(''B'', example_B), (''A'', example_A)] = [''y'', ''x'', ''z''] \<and>
   fuse_later lc [(''A'', 1), (''B'', 1)] [(''B'', example_B), (''A'', example_A)]
     [example_x, example_y, example_z] = [example_y, example_x, example_z] \<and>
   fuse (earlier_weights (example_earlier 1 1)) [(''0'', example_A), (''1'', example_B)]
     [example_x, example_y, example_z] = [example_x, example_y, example_z] \<and>
   fuse (earlier_weights store) [(''A'', example_A), (''B'', example_B)]
     [example_x, example_y, example_z] = [example_x, example_y, example_z]"
proof -
  have agg: "aggregated [(''A'', 1), (''B'', 1)] [(''A'', example_A), (''B'', example_B)]
     [example_x, example_y, example_z] =
     [(3 / 4, example_x), (3 / 4, example_y), (1 / 3, example_z)]"
    by (rule aggregated_AB[where w = 1]) (simp_all add: weight_of_AB)
  have above: "ranks_above example_x example_y [example_x, example_y, example_z]"
    "ranks_above example_y example_z [example_x, example_y, example_z]"
    using examples_distinct by (auto simp: ranks_above_def)
  show ?thesis
    unfolding fuse_later_AB fuse_later_BA fuse_earlier_01 fuse_earlier_AB allUrls_examples agg
    using above by simp
qed

theorem fused_order_follows_union_order_witness:
  "fuse_later (\<lambda>s. s) [(''A'', 1), (''B'', 1)] [(''A'', example_A), (''B'', example_B)]
     [example_x, example_y, example_z] = [example_x, example_y, example_z] \<and>
   fuse_later (\<lambda>s. s) [(''A'', 1), (''B'', 1)] [(''B'', example_B), (''A'', example_A)]
     [example_x, example_y, example_z] = [example_y, example_x, example_z]"
  using fused_order_follows_union_order [of "\<lambda>s. s"] by blast

text \<open>
  The claim as stated fails on the response that lists A before B: \<open>y\<close> is not ranked
  above \<open>x\<close>, whatever the host's \<open>toLowerCase\<close> does.
\<close>

theorem fused_order_counterexample:
  "\<forall>lc. fuse_later lc [(''A'', 1), (''B'', 1)] [(''A'', example_A), (''B'', example_B)]
          [example_x, example_y, example_z] = [example_x, example_y, example_z] \<and>
        \<not> ranks_above example_y example_x
          (fuse_later lc [(''A'', 1), (''B'', 1)] [(''A'', example_A), (''B'', example_B)]
             [example_x, example_y, example_z])"
  unfolding fuse_later_AB using examples_distinct by (simp add: ranks_above_def)


section \<open>The query orchestrator\<close>

lemma clear_and_abort_eq:
  "clear_and_abort s =
     s\<lparr>timers := (case debounceTimeoutRef s of None \<Rightarrow> timers s
                    | Some t \<Rightarrow> filter (\<lambda>(i, q). i \<noteq> t) (timers s)),
       aborted := (case abortControllerRef s of None \<Rightarrow> aborted s | Some c \<Rightarrow> c # aborted s)\<rparr>"
  by (simp add: clear_and_abort_def clearTimeout_def abort_def Let_def split: option.splits)

lemma onChange_empty_eq:
  "onChange [] s =
     (clear_and_abort s)\<lparr>query := [], debouncedQuery := [], favorites := favCopy s,
        forceUpdates := Suc (forceUpdates s)\<rparr>"
  by (simp add: onChange_def Let_def setDebouncedQuery_def clear_and_abort_eq
      split: option.splits)

lemma onClear_eq:
  "onClear s =
     (case favCopy s of
        None \<Rightarrow> (clear_and_abort s)\<lparr>query := [], debouncedQuery := []\<rparr>
      | Some fc \<Rightarrow>
          (clear_and_abort s)\<lparr>query := [], debouncedQuery := [], favorites := favCopy s,
             forceUpdates := Suc (forceUpdates s)\<rparr>)"
  by (simp add: onClear_def Let_def setDebouncedQuery_def clear_and_abort_eq split: option.splits)

lemma onChange_arm_eq:
  "q \<noteq> [] \<Longrightarrow> onChange q s =
     (clear_and_abort s)\<lparr>query := q, debounceTimeoutRef := Some (fresh s),
        timers := timers (clear_and_abort s) @ [(fresh s, q)], fresh := Suc (fresh s)\<rparr>"
  by (simp add: onChange_def Let_def clear_and_abort_eq split: option.splits)

text \<open>
  What the handlers do for the empty query, in any state: the timer held by the ref is
  cleared and no timer is armed, the controller held by the ref is aborted, no request
  is sent, \<open>query\<close> and \<open>debouncedQuery\<close> are set to the empty string, and the view
  \<open>favorites\<close> becomes the snapshot \<open>favCopy\<close> in the same step, the host being told to
  update. \<open>onChange\<close> assigns the snapshot unguarded, \<open>onClear\<close> under its guard
  \<open>favCopy != null\<close>.
\<close>

lemma onChange_empty_restores:
  "favorites (onChange [] s) = favCopy s \<and>
   forceUpdates (onChange [] s) = Suc (forceUpdates s) \<and>
   favCopy (onChange [] s) = favCopy s \<and>
   query (onChange [] s) = [] \<and> debouncedQuery (onChange [] s) = [] \<and>
   sent (onChange [] s) = sent s \<and> in_flight (onChange [] s) = in_flight s \<and>
   pending_effect (onChange [] s) = pending_effect s \<and>
   set (timers (onChange [] s)) \<subseteq> set (timers s) \<and>
   (\<forall>t. debounceTimeoutRef s = Some t \<longrightarrow> t \<notin> fst ` set (timers (onChange [] s))) \<and>
   (\<forall>c. abortControllerRef s = Some c \<longrightarrow> c \<in> set (aborted (onChange [] s)))"
  unfolding onChange_empty_eq by (auto simp: clear_and_abort_eq split: option.splits)

lemma onClear_restores:
  "(favCopy s \<noteq> None \<longrightarrow>
      favorites (onClear s) = favCopy s \<and> forceUpdates (onClear s) = Suc (forceUpdates s)) \<and>
   favCopy (onClear s) = favCopy s \<and>
   query (onClear s) = [] \<and> debouncedQuery (onClear s) = [] \<and>
   sent (onClear s) = sent s \<and> in_flight (onClear s) = in_flight s \<and>
   pending_effect (onClear s) = pending_effect s \<and>
   set (timers (onClear s)) \<subseteq> set (timers s) \<and>
   (\<forall>t. debounceTimeoutRef s = Some t \<longrightarrow> t \<notin> fst ` set (timers (onClear s))) \<and>
   (\<forall>c. abortControllerRef s = Some c \<longrightarrow> c \<in> set (aborted (onClear s)))"
  unfolding onClear_eq by (cases "favCopy s") (auto simp: clear_and_abort_eq split: option.splits)

text \<open>
  A response whose controller was aborted is dropped, whatever it holds: the step only
  takes the fetch off the list of fetches in flight and writes the line
  \<open>Fetch aborted\<close> with \<open>console.log\<close>.
\<close>

lemma settle_aborted:
  "sr_controller r \<in> set (aborted s) \<Longrightarrow>
   performSearch_settle lc r out s = s\<lparr>console := console s @ [ConsoleLog ''Fetch aborted'']\<rparr>"
  by (simp add: performSearch_settle_def)

lemma response_aborted:
  assumes "i < length (in_flight s)" "sr_controller (in_flight s ! i) \<in> set (aborted s)"
  shows "ui_step lc (Response i out) s =
     s\<lparr>in_flight := remove_nth i (in_flight s),
       console := console s @ [ConsoleLog ''Fetch aborted'']\<rparr>"
  using assms by (simp add: settle_aborted)

lemma ui_run_Cons: "ui_run lc (e # es) s = ui_run lc es (ui_step lc e s)"
  by (simp add: ui_run_def)

lemma ui_run_Nil: "ui_run lc [] s = s"
  by (simp add: ui_run_def)

lemma ui_run_append: "ui_run lc (es @ es') s = ui_run lc es' (ui_run lc es s)"
  by (simp add: ui_run_def)

subsection \<open>A search that starts after its query was replaced\<close>

lemma example_typing:
  "ui_step lc (OnChange ''cat'') example_mounted =
     example_mounted\<lparr>query := ''cat'', debounceTimeoutRef := Some 0, timers := [(0, ''cat'')],
        fresh := 1\<rparr>"
  by (simp add: onChange_arm_eq clear_and_abort_eq example_mounted_def mounted_def)

lemma example_fired:
  "ui_step lc (TimerFires 0) (example_mounted\<lparr>query := ''cat'', debounceTimeoutRef := Some 0,
        timers := [(0, ''cat'')], fresh := 1\<rparr>) =
     example_mounted\<lparr>query := ''cat'', debouncedQuery := ''cat'', debounceTimeoutRef := Some 0,
        timers := [], fresh := 1\<rparr>"
  by (simp add: timer_fires_def clearTimeout_def setDebouncedQuery_def example_mounted_def
      mounted_def)

lemma example_committed:
  "ui_step lc Commit (example_mounted\<lparr>query := ''cat'', debouncedQuery := ''cat'',
        debounceTimeoutRef := Some 0, timers := [], fresh := 1\<rparr>) =
     example_mounted\<lparr>query := ''cat'', debouncedQuery := ''cat'', rendered := ''cat'',
        pending_effect := Some ''cat'', debounceTimeoutRef := Some 0, timers := [], fresh := 1\<rparr>"
  by (simp add: commit_def run_effect_def schedule_effect_def example_mounted_def mounted_def)

lemma example_replaced:
  "ui_step lc (OnChange ''d'') (example_mounted\<lparr>query := ''cat'', debouncedQuery := ''cat'',
        rendered := ''cat'', pending_effect := Some ''cat'', debounceTimeoutRef := Some 0,
        timers := [], fresh := 1\<rparr>) =
     example_mounted\<lparr>query := ''d'', debouncedQuery := ''cat'', rendered := ''cat'',
        pending_effect := Some ''cat'', debounceTimeoutRef := Some 1, timers := [(1, ''d'')],
        fresh := 2\<rparr>"
  by (simp add: onChange_arm_eq clear_and_abort_eq example_mounted_def mounted_def)

lemma example_effect:
  "ui_step lc RunEffect (example_mounted\<lparr>query := ''d'', debouncedQuery := ''cat'',
        rendered := ''cat'', pending_effect := Some ''cat'', debounceTimeoutRef := Some 1,
        timers := [(1, ''d'')], fresh := 2\<rparr>) = example_raced"
  by (simp add: run_effect_def search_effect_def performSearch_begin_def Let_def
      example_mounted_def mounted_def example_store_def example_key_def getModelWeights_def
      example_cat_def example_raced_def)

lemma example_race_run: "ui_run lc example_race example_mounted = example_raced"
  unfolding example_race_def ui_run_Cons ui_run_Nil example_typing example_fired
    example_committed example_replaced example_effect
  by (rule refl)

lemma example_second_run: "ui_run lc example_second example_raced = example_two_searches"
  by (simp add: example_second_def ui_run_def example_raced_def example_two_searches_def
      timer_fires_def clearTimeout_def setDebouncedQuery_def commit_def schedule_effect_def
      run_effect_def search_effect_def performSearch_begin_def Let_def
      example_mounted_def mounted_def example_store_def example_key_def getModelWeights_def
      example_d_def)

lemma allUrls_single:
  "allUrls [(b, example_B)] = [''y'', ''x'']"
  "allUrls [(a, example_A)] = [''x'', ''y'', ''z'']"
  by (simp_all add: allUrls_def set_add_def example_A_def example_B_def)

lemma build_rankingMaps_single: "build_rankingMaps [(a, ra)] = [(a, rank_map ra)]"
  by (simp add: build_rankingMaps_def object_set_def)

lemma resolve_weights_single:
  "resolve_weights lc [(''A'', 1), (''B'', 1)] [''B''] = [(''B'', 1)]"
  "resolve_weights lc [(''A'', 1), (''B'', 1)] [''A''] = [(''A'', 1)]"
  by (simp_all add: resolve_weights_def object_set_def)

lemma aggregate_one_B:
  "aggregate_one [(''B'', 1)] [(''B'', rank_map example_B)]
     [example_x, example_y, example_z] ''y'' = Some (1, example_y)"
  "aggregate_one [(''B'', 1)] [(''B'', rank_map example_B)]
     [example_x, example_y, example_z] ''x'' = Some (1 / 2, example_x)"
  by (simp_all add: aggregate_one_def accumulate_def rank_map_examples Let_def url_examples
      weight_of_def)

lemma aggregate_one_A:
  "aggregate_one [(''A'', 1)] [(''A'', rank_map example_A)]
     [example_x, example_y, example_z] ''x'' = Some (1, example_x)"
  "aggregate_one [(''A'', 1)] [(''A'', rank_map example_A)]
     [example_x, example_y, example_z] ''y'' = Some (1 / 2, example_y)"
  "aggregate_one [(''A'', 1)] [(''A'', rank_map example_A)]
     [example_x, example_y, example_z] ''z'' = Some (1 / 3, example_z)"
  by (simp_all add: aggregate_one_def accumulate_def rank_map_examples Let_def url_examples
      weight_of_def)

lemma fuse_B:
  "fuse (resolve_weights lc [(''A'', 1), (''B'', 1)] [''B'']) [(''B'', example_B)]
     [example_x, example_y, example_z] = [example_y, example_x]"
  using aggregate_one_B
  by (simp add: resolve_weights_single fuse_def aggregated_def build_rankingMaps_single
      allUrls_single)

lemma fuse_A:
  "fuse (resolve_weights lc [(''A'', 1), (''B'', 1)] [''A'']) [(''A'', example_A)]
     [example_x, example_y, example_z] = [example_x, example_y, example_z]"
  using aggregate_one_A
  by (simp add: resolve_weights_single fuse_def aggregated_def build_rankingMaps_single
      allUrls_single)

lemma example_cat_applied:
  "ui_step lc (Response 0 example_response) example_raced =
     example_raced\<lparr>in_flight := [], favorites := Some [example_y, example_x],
        forceUpdates := 1\<rparr>"
  using fuse_B[of lc]
  by (simp add: example_raced_def performSearch_settle_def show_results_def
      example_response_def response_ok_def remove_nth_def example_mounted_def mounted_def
      example_cat_def Let_def)

lemma example_d_applied:
  "ui_step lc (Response 1 example_response_d) example_two_searches =
     example_two_searches\<lparr>in_flight := [example_cat],
        favorites := Some [example_x, example_y, example_z], forceUpdates := 1\<rparr>"
  using fuse_A[of lc]
  by (simp add: example_two_searches_def performSearch_settle_def show_results_def
      example_response_d_def response_ok_def remove_nth_def example_mounted_def mounted_def
      example_d_def Let_def)

lemma example_cat_over_d:
  "ui_step lc (Response 0 example_response)
     (example_two_searches\<lparr>in_flight := [example_cat],
        favorites := Some [example_x, example_y, example_z], forceUpdates := 1\<rparr>) =
     example_two_searches\<lparr>in_flight := [],
        favorites := Some [example_y, example_x], forceUpdates := 2\<rparr>"
  using fuse_B[of lc]
  by (simp add: example_two_searches_def performSearch_settle_def show_results_def
      example_response_def response_ok_def remove_nth_def example_mounted_def mounted_def
      example_cat_def Let_def)

lemma example_cleared:
  "ui_step lc OnClear example_two_searches =
     example_two_searches\<lparr>query := [], debouncedQuery := [], aborted := [3],
        favorites := Some [example_x, example_y, example_z], forceUpdates := 1\<rparr>"
  "ui_step lc (OnChange []) example_two_searches =
     example_two_searches\<lparr>query := [], debouncedQuery := [], aborted := [3],
        favorites := Some [example_x, example_y, example_z], forceUpdates := 1\<rparr>"
  by (simp_all add: onClear_eq onChange_empty_eq clear_and_abort_eq example_two_searches_def
      example_mounted_def mounted_def)

lemma example_cat_over_cleared:
  "ui_step lc (Response 0 example_response)
     (example_two_searches\<lparr>query := [], debouncedQuery := [], aborted := [3],
        favorites := Some [example_x, example_y, example_z], forceUpdates := 1\<rparr>) =
     example_two_searches\<lparr>query := [], debouncedQuery := [], aborted := [3],
        in_flight := [example_d], favorites := Some [example_y, example_x],
        forceUpdates := 2\<rparr>"
  using fuse_B[of lc]
  by (simp add: example_two_searches_def performSearch_settle_def show_results_def
      example_response_def response_ok_def remove_nth_def example_mounted_def mounted_def
      example_cat_def Let_def)

lemma example_fields:
  "query example_raced = ''d''" "in_flight example_raced = [example_cat]"
  "aborted example_raced = []" "favorites example_raced = Some [example_z]"
  "console example_raced = []"
  "favCopy example_raced = Some [example_x, example_y, example_z]"
  "query example_two_searches = ''d''"
  "in_flight example_two_searches = [example_cat, example_d]"
  "aborted example_two_searches = []" "abortControllerRef example_two_searches = Some 3"
  "favCopy example_two_searches = Some [example_x, example_y, example_z]"
  "sr_text example_cat = ''cat''" "sr_controller example_cat = 2"
  "sr_text example_d = ''d''" "sr_controller example_d = 3"
  by (simp_all add: example_raced_def example_two_searches_def example_mounted_def mounted_def
      example_cat_def example_d_def)

text \<open>
  C9. The code on a run in which a search starts after its query was replaced. \<open>cat\<close>
  is typed, its timer fires (\<open>setDebouncedQuery\<close>) and the component is rendered; \<open>d\<close> is
  typed before the effect of that render runs, so \<open>onChange\<close> finds no controller to
  abort; then the effect runs \<open>performSearch\<close> for \<open>cat\<close>. The fetch for \<open>cat\<close> is in
  flight with a controller that is not aborted while the input holds \<open>d\<close>, and when its
  response arrives it is applied: the view becomes the results for \<open>cat\<close>, and nothing
  is logged. When the timer of \<open>d\<close> has fired and its effect has run, \<open>performSearch\<close>
  has replaced the controller in the ref without aborting the one of \<open>cat\<close>: both
  fetches are in flight, and the response for \<open>cat\<close>, arriving after the one for \<open>d\<close>,
  overwrites the view produced for \<open>d\<close>.
\<close>

theorem superseded_search_is_applied:
  "ui_run lc example_race example_mounted = example_raced \<and>
   query example_raced = ''d'' \<and>
   in_flight example_raced = [example_cat] \<and> sr_text example_cat = ''cat'' \<and>
   sr_controller example_cat \<notin> set (aborted example_raced) \<and>
   favorites example_raced = Some [example_z] \<and>
   favorites (ui_run lc (example_race @ [Response 0 example_response]) example_mounted) =
     Some [example_y, example_x] \<and>
   query (ui_run lc (example_race @ [Response 0 example_response]) example_mounted) = ''d'' \<and>
   console (ui_run lc (example_race @ [Response 0 example_response]) example_mounted) = [] \<and>
   ui_run lc (example_race @ example_second) example_mounted = example_two_searches \<and>
   in_flight example_two_searches = [example_cat, example_d] \<and>
   aborted example_two_searches = [] \<and>
   favorites (ui_run lc [Response 1 example_response_d] example_two_searches) =
     Some [example_x, example_y, example_z] \<and>
   favorites (ui_run lc [Response 1 example_response_d, Response 0 example_response]
      example_two_searches) = Some [example_y, example_x] \<and>
   query (ui_run lc [Response 1 example_response_d, Response 0 example_response]
      example_two_searches) = ''d''"
  unfolding ui_run_append example_race_run example_second_run ui_run_Cons ui_run_Nil
    example_cat_applied example_d_applied example_cat_over_d
  by (simp add: example_fields)

theorem superseded_search_is_applied_witness:
  "favorites (ui_run (\<lambda>s. s) (example_race @ [Response 0 example_response]) example_mounted) =
     Some [example_y, example_x] \<and>
   query (ui_run (\<lambda>s. s) (example_race @ [Response 0 example_response]) example_mounted) = ''d''"
  using superseded_search_is_applied [of "\<lambda>s. s"] by blast

text \<open>
  C8. The code on a clear while two searches are in flight. After the run above the
  fetches for \<open>cat\<close> and for \<open>d\<close> are in flight and the ref holds the controller of the
  second. \<open>onClear\<close> restores the view to the snapshot \<open>favCopy\<close> in its own step and
  aborts the controller of \<open>d\<close>; the fetch for \<open>cat\<close> stays in flight with a controller
  that is not aborted, and when its response arrives the restored view is replaced by
  the results for \<open>cat\<close> while the query is empty. An input change to the empty string
  does the same.
\<close>

theorem clear_leaves_search_in_flight:
  "ui_run lc (example_race @ example_second) example_mounted = example_two_searches \<and>
   in_flight example_two_searches = [example_cat, example_d] \<and>
   abortControllerRef example_two_searches = Some (sr_controller example_d) \<and>
   favCopy example_two_searches = Some [example_x, example_y, example_z] \<and>
   favorites (ui_step lc OnClear example_two_searches) =
     Some [example_x, example_y, example_z] \<and>
   in_flight (ui_step lc OnClear example_two_searches) = [example_cat, example_d] \<and>
   aborted (ui_step lc OnClear example_two_searches) = [sr_controller example_d] \<and>
   \<not> all_aborted (ui_step lc OnClear example_two_searches) \<and>
   favorites (ui_run lc [OnClear, Response 0 example_response] example_two_searches) =
     Some [example_y, example_x] \<and>
   query (ui_run lc [OnClear, Response 0 example_response] example_two_searches) = [] \<and>
   favorites (ui_step lc (OnChange []) example_two_searches) =
     Some [example_x, example_y, example_z] \<and>
   \<not> all_aborted (ui_step lc (OnChange []) example_two_searches) \<and>
   favorites (ui_run lc [OnChange [], Response 0 example_response] example_two_searches) =
     Some [example_y, example_x]"
  unfolding ui_run_append example_race_run example_second_run ui_run_Cons ui_run_Nil
    example_cleared example_cat_over_cleared
  by (simp add: example_fields all_aborted_def)

theorem clear_leaves_search_in_flight_witness:
  "\<not> all_aborted (ui_step (\<lambda>s. s) OnClear example_two_searches) \<and>
   favorites (ui_run (\<lambda>s. s) [OnClear, Response 0 example_response] example_two_searches) =
     Some [example_y, example_x]"
  using clear_leaves_search_in_flight [of "\<lambda>s. s"] by blast

end
